theory Spec2Isabelle
  imports Main "HOL-Library.Word"
begin

unbundle bit_operations_syntax

section \<open>Machine words and bit fields\<close>

text \<open>
  The hypervisor is C++ compiled for x64 Windows: \<open>UINT64\<close>, \<open>ULONG64\<close>, \<open>PVOID\<close> and
  \<open>PFN_NUMBER\<close> are 64-bit words, \<open>ULONG\<close>, \<open>LONG\<close> and \<open>int\<close> are 32-bit words,
  \<open>UINT16\<close> is a 16-bit word. A C bit field \<open>F : w\<close> that starts at bit \<open>lo\<close> of a
  64-bit union member \<open>AsUInt64\<close> is read with \<open>get_field lo w\<close> and assigned with
  \<open>set_field lo w\<close>; an assignment keeps the low \<open>w\<close> bits of the value and leaves every
  other bit of the word as it was.
\<close>

definition get_field :: "nat \<Rightarrow> nat \<Rightarrow> 64 word \<Rightarrow> 64 word" where
  "get_field lo w e = take_bit w (drop_bit lo e)"

definition set_field :: "nat \<Rightarrow> nat \<Rightarrow> 64 word \<Rightarrow> 64 word \<Rightarrow> 64 word" where
  "set_field lo w v e = (e AND NOT (push_bit lo (mask w))) OR push_bit lo (take_bit w v)"

text \<open>\<open>TRUE\<close> and \<open>FALSE\<close> of a \<open>BOOLEAN\<close>, as the value stored into a one-bit field.\<close>

definition of_BOOLEAN :: "bool \<Rightarrow> 64 word" where
  "of_BOOLEAN b = (if b then 1 else 0)"

definition MAXULONG64 :: "64 word" where
  "MAXULONG64 = 0xFFFFFFFFFFFFFFFF"

definition MAXUINT32 :: "64 word" where
  "MAXUINT32 = 0xFFFFFFFF"

subsection \<open>x86_64.hpp: constants\<close>

definition EFER_SVME :: "64 word" where
  "EFER_SVME = push_bit 12 1"

definition DPL_SYSTEM :: "64 word" where
  "DPL_SYSTEM = 0"

definition CPUID_FN0000_0001_ECX_HYPERVISOR_PRESENT :: "32 word" where
  "CPUID_FN0000_0001_ECX_HYPERVISOR_PRESENT = push_bit 31 1"

definition CPUID_PROCESSOR_AND_PROCESSOR_FEATURE_IDENTIFIERS :: "32 word" where
  "CPUID_PROCESSOR_AND_PROCESSOR_FEATURE_IDENTIFIERS = 0x00000001"

definition CPUID_HV_VENDOR_AND_MAX_FUNCTIONS :: "32 word" where
  "CPUID_HV_VENDOR_AND_MAX_FUNCTIONS = 0x40000000"

definition CPUID_HV_INTERFACE :: "32 word" where
  "CPUID_HV_INTERFACE = 0x40000001"

definition CPUID_HV_MAX :: "32 word" where
  "CPUID_HV_MAX = CPUID_HV_INTERFACE"

definition CPUID_LEAF_SIMPLE_SVM_CALL :: "32 word" where
  "CPUID_LEAF_SIMPLE_SVM_CALL = 0x41414141"

definition CPUID_SUBLEAF_UNLOAD_SIMPLE_SVM :: "32 word" where
  "CPUID_SUBLEAF_UNLOAD_SIMPLE_SVM = 0x41414141"

definition CPUID_SUBLEAF_ENABLE_HOOKS :: "32 word" where
  "CPUID_SUBLEAF_ENABLE_HOOKS = 0x41414142"

definition CPUID_SUBLEAF_DISABLE_HOOKS :: "32 word" where
  "CPUID_SUBLEAF_DISABLE_HOOKS = 0x41414143"

subsection \<open>x86_64.hpp: nested page table entries\<close>

text \<open>
  \<open>PML4_ENTRY_4KB\<close> (also used for PDPT and PD entries) and \<open>PT_ENTRY_4KB\<close> place the
  fields this code touches at the same bits: Valid [0], Write [1], User [2],
  PageFrameNumber [12:51], NoExecute [63].
\<close>

definition Valid :: "64 word \<Rightarrow> 64 word" where
  "Valid e = get_field 0 1 e"

definition Write :: "64 word \<Rightarrow> 64 word" where
  "Write e = get_field 1 1 e"

definition User :: "64 word \<Rightarrow> 64 word" where
  "User e = get_field 2 1 e"

definition PageFrameNumber :: "64 word \<Rightarrow> 64 word" where
  "PageFrameNumber e = get_field 12 40 e"

definition NoExecute :: "64 word \<Rightarrow> 64 word" where
  "NoExecute e = get_field 63 1 e"

definition set_Valid :: "64 word \<Rightarrow> 64 word \<Rightarrow> 64 word" where
  "set_Valid v e = set_field 0 1 v e"

definition set_Write :: "64 word \<Rightarrow> 64 word \<Rightarrow> 64 word" where
  "set_Write v e = set_field 1 1 v e"

definition set_User :: "64 word \<Rightarrow> 64 word \<Rightarrow> 64 word" where
  "set_User v e = set_field 2 1 v e"

definition set_PageFrameNumber :: "64 word \<Rightarrow> 64 word \<Rightarrow> 64 word" where
  "set_PageFrameNumber v e = set_field 12 40 v e"

definition set_NoExecute :: "64 word \<Rightarrow> 64 word \<Rightarrow> 64 word" where
  "set_NoExecute v e = set_field 63 1 v e"

subsection \<open>Svm.hpp: event injection and the VMCB\<close>

text \<open>
  \<open>EVENTINJ\<close>: Vector [0:7], Type [8:10], ErrorCodeValid [11], Valid [31],
  ErrorCode [32:63].
\<close>

definition EVENTINJ_Vector :: "64 word \<Rightarrow> 64 word" where
  "EVENTINJ_Vector e = get_field 0 8 e"

definition EVENTINJ_Type :: "64 word \<Rightarrow> 64 word" where
  "EVENTINJ_Type e = get_field 8 3 e"

definition EVENTINJ_ErrorCodeValid :: "64 word \<Rightarrow> 64 word" where
  "EVENTINJ_ErrorCodeValid e = get_field 11 1 e"

definition EVENTINJ_Valid :: "64 word \<Rightarrow> 64 word" where
  "EVENTINJ_Valid e = get_field 31 1 e"

definition EVENTINJ_ErrorCode :: "64 word \<Rightarrow> 64 word" where
  "EVENTINJ_ErrorCode e = get_field 32 32 e"

text \<open>\<open>NPF_EXITINFO1\<close>: Valid [0], Execute [4].\<close>

definition NPF_EXITINFO1_Valid :: "64 word \<Rightarrow> 64 word" where
  "NPF_EXITINFO1_Valid e = get_field 0 1 e"

text \<open>\<open>SEGMENT_ATTRIBUTE\<close> (16 bits): Dpl [5:6].\<close>

definition SEGMENT_ATTRIBUTE_Dpl :: "16 word \<Rightarrow> 64 word" where
  "SEGMENT_ATTRIBUTE_Dpl a = get_field 5 2 (ucast a)"

text \<open>The fields of the VMCB that the exit handlers read or write.\<close>

record VMCB_CONTROL_AREA =
  ExitCode :: "64 word"
  ExitInfo1 :: "64 word"
  ExitInfo2 :: "64 word"
  EventInj :: "64 word"
  NRip :: "64 word"

record VMCB_STATE_SAVE_AREA =
  SsAttrib :: "16 word"
  Efer :: "64 word"
  Rip :: "64 word"

record VMCB =
  ControlArea :: VMCB_CONTROL_AREA
  StateSaveArea :: VMCB_STATE_SAVE_AREA

subsection \<open>HookCommon.hpp: hook entries and per-processor hook data\<close>

record HOOK_ENTRY =
  HookAddress :: "64 word"
  Handler :: "64 word"
  PageBaseForExecution :: "64 word"
  PhyPageBase :: "64 word"
  PhyPageBaseForExecution :: "64 word"
  OriginalCallStub :: "64 word"

text \<open>
  \<open>g_HookRegistrationEntries\<close> is a global array filled in at driver load and read-only
  afterwards; the functions below take it as their first argument. Only the
  \<open>HookEntry\<close> member of a registration is read by the hypervisor.
\<close>

record HOOK_REGISTRATION_ENTRY =
  FunctionName :: string
  RegistrationHandler :: "64 word"
  HookEntry :: HOOK_ENTRY

datatype NPT_STATE = NptDefault | NptHookEnabledInvisible | NptHookEnabledVisible

text \<open>
  Pages are named by their page frame number: \<open>Pml4Table\<close> and the elements of
  \<open>PreAllocatedNptEntries\<close> are pointers to non-paged pages in the source, and
  \<open>GetPfnFromVa\<close> / \<open>GetVaFromPfn\<close> translate between a pointer and its frame.
  \<open>ActiveHookEntry\<close> points into the read-only registration array or is null.
\<close>

record HOOK_DATA =
  Pml4Table :: "64 word"
  PreAllocatedNptEntries :: "64 word list"
  UsedPreAllocatedEntriesCount :: "32 word"
  MaxNptPdpEntriesUsed :: "32 word"
  ActiveHookEntry :: "HOOK_ENTRY option"
  NptState :: NPT_STATE

text \<open>
  A table entry is addressed by the frame of its table and its index in the table.
  \<open>Npt\<close> is the physical memory seen as tables of 64-bit entries, \<open>KernelPool\<close> the
  frames that \<open>ExAllocatePoolWithTag\<close> hands out next (empty: the allocation fails),
  \<open>Data\<close> the processor's \<open>HOOK_DATA\<close>.
\<close>

type_synonym entry_ptr = "64 word \<times> nat"

record hook_state =
  Npt :: "entry_ptr \<Rightarrow> 64 word"
  KernelPool :: "64 word list"
  Data :: HOOK_DATA

text \<open>
  What stops the processor: \<open>SIMPLESVMHOOK_BUG_CHECK\<close>, and a read or write through a
  null pointer or past the end of an array. \<open>NT_ASSERT\<close> is compiled out of a free
  build and is modelled as no operation; the conditions it names appear as hypotheses
  where a property needs them.
\<close>

datatype fatal = BugCheck | MemoryFault

subsection \<open>VmmMain.hpp: guest registers\<close>

record GUEST_REGISTERS =
  Rbx :: "64 word"
  Rdx :: "64 word"
  Rcx :: "64 word"
  Rax :: "64 word"

record GUEST_CONTEXT =
  VpRegs :: GUEST_REGISTERS
  ExitVm :: bool

record VIRTUAL_PROCESSOR_DATA =
  GuestVmcb :: VMCB
  HookData :: hook_state

section \<open>HookCommon.hpp: address arithmetic\<close>

definition k_PxiShift :: nat where "k_PxiShift = 39"
definition k_PpiShift :: nat where "k_PpiShift = 30"
definition k_PdiShift :: nat where "k_PdiShift = 21"
definition k_PtiShift :: nat where "k_PtiShift = 12"
definition k_PtxMask :: "64 word" where "k_PtxMask = 0x1ff"
definition PAGE_SHIFT :: nat where "PAGE_SHIFT = 12"

definition GetPxeIndex :: "64 word \<Rightarrow> 64 word" where
  "GetPxeIndex PhysicalAddress = drop_bit k_PxiShift PhysicalAddress AND k_PtxMask"

definition GetPpeIndex :: "64 word \<Rightarrow> 64 word" where
  "GetPpeIndex PhysicalAddress = drop_bit k_PpiShift PhysicalAddress AND k_PtxMask"

definition GetPdeIndex :: "64 word \<Rightarrow> 64 word" where
  "GetPdeIndex PhysicalAddress = drop_bit k_PdiShift PhysicalAddress AND k_PtxMask"

definition GetPteIndex :: "64 word \<Rightarrow> 64 word" where
  "GetPteIndex PhysicalAddress = drop_bit k_PtiShift PhysicalAddress AND k_PtxMask"

definition GetPfnFromPa :: "64 word \<Rightarrow> 64 word" where
  "GetPfnFromPa PhysicalAddress = drop_bit PAGE_SHIFT PhysicalAddress"

definition PAGE_ALIGN :: "64 word \<Rightarrow> 64 word" where
  "PAGE_ALIGN a = a AND NOT 0xFFF"

section \<open>HookVmmAlwaysOptimized.cpp: permission changes\<close>

text \<open>
  \<open>for (i = 0; i < n; ++i) Table[i].Fields.NoExecute = v;\<close> on the table in frame
  \<open>Table\<close>: the entries are written in ascending order.
\<close>

primrec ForEachEntrySetNoExecute ::
  "nat \<Rightarrow> 64 word \<Rightarrow> 64 word \<Rightarrow> (entry_ptr \<Rightarrow> 64 word) \<Rightarrow> (entry_ptr \<Rightarrow> 64 word)" where
  "ForEachEntrySetNoExecute 0 Table v mem = mem"
| "ForEachEntrySetNoExecute (Suc n) Table v mem =
     (let mem' = ForEachEntrySetNoExecute n Table v mem
      in mem'((Table, n) := set_NoExecute v (mem' (Table, n))))"

definition ChangePermissionOfPage ::
  "(entry_ptr \<Rightarrow> 64 word) \<Rightarrow> 64 word \<Rightarrow> 64 word \<Rightarrow> bool \<Rightarrow> (entry_ptr \<Rightarrow> 64 word)" where
  "ChangePermissionOfPage mem pml4Table PhysicalAddress DisallowExecution =
     (let pxeIndex = unat (GetPxeIndex PhysicalAddress);
          pml4Entry = (pml4Table, pxeIndex);
          pageDirectoryPointerTable = PageFrameNumber (mem pml4Entry);
          ppeIndex = unat (GetPpeIndex PhysicalAddress);
          pdptEntry = (pageDirectoryPointerTable, ppeIndex);
          pageDirectoryTable = PageFrameNumber (mem pdptEntry);
          mem1 = (if \<not> DisallowExecution \<and> NoExecute (mem pdptEntry) \<noteq> 0
                  then ForEachEntrySetNoExecute 512 pageDirectoryTable (of_BOOLEAN True)
                         (mem(pdptEntry := set_NoExecute (of_BOOLEAN False) (mem pdptEntry)))
                  else mem);
          pdeIndex = unat (GetPdeIndex PhysicalAddress);
          pdtEntry = (pageDirectoryTable, pdeIndex);
          pageTable = PageFrameNumber (mem1 pdtEntry);
          mem2 = (if \<not> DisallowExecution \<and> NoExecute (mem1 pdtEntry) \<noteq> 0
                  then ForEachEntrySetNoExecute 512 pageTable (of_BOOLEAN True)
                         (mem1(pdtEntry := set_NoExecute (of_BOOLEAN False) (mem1 pdtEntry)))
                  else mem1);
          pteIndex = unat (GetPteIndex PhysicalAddress);
          ptEntry = (pageTable, pteIndex)
      in mem2(ptEntry := set_NoExecute (of_BOOLEAN DisallowExecution) (mem2 ptEntry)))"

definition MakeAllSubTablesExecutable ::
  "(entry_ptr \<Rightarrow> 64 word) \<Rightarrow> 64 word \<Rightarrow> 64 word \<Rightarrow> (entry_ptr \<Rightarrow> 64 word)" where
  "MakeAllSubTablesExecutable mem PageDirectoryPointerTable ActiveHookPa =
     (let ppeIndex = unat (GetPpeIndex ActiveHookPa);
          pdptEntry = (PageDirectoryPointerTable, ppeIndex);
          pageDirectoryTable = PageFrameNumber (mem pdptEntry);
          mem1 = ForEachEntrySetNoExecute 512 pageDirectoryTable (of_BOOLEAN False) mem;
          pdeIndex = unat (GetPdeIndex ActiveHookPa);
          pdtEntry = (pageDirectoryTable, pdeIndex);
          pageTable = PageFrameNumber (mem1 pdtEntry)
      in ForEachEntrySetNoExecute 512 pageTable (of_BOOLEAN False) mem1)"

text \<open>
  The PDPT is one page of 512 entries, and \<open>MaxPpeIndex\<close> is not checked against it:
  with a value above 512 the loop writes past the end of the table, a memory fault.
\<close>

definition ChangePermissionsOfAllPages ::
  "(entry_ptr \<Rightarrow> 64 word) \<Rightarrow> 64 word \<Rightarrow> 64 word \<Rightarrow> bool \<Rightarrow> 32 word
     \<Rightarrow> fatal + (entry_ptr \<Rightarrow> 64 word)" where
  "ChangePermissionsOfAllPages mem pml4Table ActiveHookPa DisallowExecution MaxPpeIndex =
     (let pml4Entry = (pml4Table, 0);
          pageDirectoryPointerTable = PageFrameNumber (mem pml4Entry)
      in if 512 < unat MaxPpeIndex then Inl MemoryFault
         else
           (let mem1 = ForEachEntrySetNoExecute (unat MaxPpeIndex) pageDirectoryPointerTable
                         (of_BOOLEAN DisallowExecution) mem
            in if \<not> DisallowExecution
               then Inr (MakeAllSubTablesExecutable mem1 pageDirectoryPointerTable ActiveHookPa)
               else Inr mem1))"

section \<open>HookCommon.cpp: building and walking the nested page tables\<close>

text \<open>
  \<open>AllocateNptEntry(HookData)\<close>. The flag says whether the argument is present
  (the processor's hook data) or null. With hook data, the counter is incremented
  (\<open>InterlockedIncrement\<close> on a \<open>LONG\<close>, the new value read as a \<open>ULONG\<close>) and
  compared with the array size 50. Without, a page comes from the kernel pool and is
  zeroed; the result \<open>None\<close> is the null pointer of a failed allocation.
\<close>

definition AllocateNptEntry ::
  "bool \<Rightarrow> hook_state \<Rightarrow> fatal + (64 word option \<times> hook_state)" where
  "AllocateNptEntry HookDataPresent s =
     (if HookDataPresent then
        (let usedCount = UsedPreAllocatedEntriesCount (Data s) + 1;
             s1 = s\<lparr>Data := (Data s)\<lparr>UsedPreAllocatedEntriesCount := usedCount\<rparr>\<rparr>
         in if unat usedCount > 50 then Inl BugCheck
            else if unat (usedCount - 1) < length (PreAllocatedNptEntries (Data s1))
            then Inr (Some (PreAllocatedNptEntries (Data s1) ! unat (usedCount - 1)), s1)
            else Inl MemoryFault)
      else
        (case KernelPool s of
           [] \<Rightarrow> Inr (None, s)
         | entry # rest \<Rightarrow>
             Inr (Some entry,
                  s\<lparr>KernelPool := rest,
                    Npt := (\<lambda>(t, i). if t = entry \<and> i < 512 then 0 else Npt s (t, i))\<rparr>)))"

text \<open>
  The four field assignments at the end of \<open>BuildNestedPageTableEntry\<close>; the frame
  number is cut to the 40 bits of the field.
\<close>

definition InitializeEntry :: "64 word \<Rightarrow> 64 word \<Rightarrow> 64 word" where
  "InitializeEntry pageFrameNumber e =
     set_PageFrameNumber pageFrameNumber
       (set_User (of_BOOLEAN True) (set_Write (of_BOOLEAN True) (set_Valid (of_BOOLEAN True) e)))"

definition BuildNestedPageTableEntry ::
  "entry_ptr \<Rightarrow> 64 word \<Rightarrow> bool \<Rightarrow> hook_state \<Rightarrow> fatal + (bool \<times> hook_state)" where
  "BuildNestedPageTableEntry Entry PhysicalAddress HookDataPresent s =
     (if PhysicalAddress = MAXULONG64 then
        (case AllocateNptEntry HookDataPresent s of
           Inl e \<Rightarrow> Inl e
         | Inr (subTable, s1) \<Rightarrow>
             (case subTable of
                None \<Rightarrow> Inr (False, s1)
              | Some frame \<Rightarrow>
                  Inr (True, s1\<lparr>Npt := (Npt s1)(Entry := InitializeEntry frame (Npt s1 Entry))\<rparr>)))
      else
        Inr (True, s\<lparr>Npt := (Npt s)(Entry :=
                         InitializeEntry (GetPfnFromPa PhysicalAddress) (Npt s Entry))\<rparr>))"

datatype NESTED_PAGE_TABLES_OPERATION = FindOperation | BuildOperation

text \<open>
  One interior level of \<open>OperateOnNestedPageTables\<close> (the same block is written out
  for the PML4, the PDPT and the PDT): an invalid entry ends a find, and is built with
  a new sub table otherwise. The flag returned is False where the source jumps to
  \<open>Exit\<close> with a null result.
\<close>

definition EnsureSubTable ::
  "entry_ptr \<Rightarrow> NESTED_PAGE_TABLES_OPERATION \<Rightarrow> bool \<Rightarrow> hook_state
     \<Rightarrow> fatal + (bool \<times> hook_state)" where
  "EnsureSubTable Entry Operation HookDataPresent s =
     (if Valid (Npt s Entry) = 0 then
        (if Operation \<noteq> BuildOperation then Inr (False, s)
         else BuildNestedPageTableEntry Entry MAXULONG64 HookDataPresent s)
      else Inr (True, s))"

definition OperateOnNestedPageTables ::
  "64 word \<Rightarrow> 64 word \<Rightarrow> NESTED_PAGE_TABLES_OPERATION \<Rightarrow> bool \<Rightarrow> hook_state
     \<Rightarrow> fatal + (entry_ptr option \<times> hook_state)" where
  "OperateOnNestedPageTables pml4Table PhysicalAddress Operation HookDataPresent s =
     (let pml4Entry = (pml4Table, unat (GetPxeIndex PhysicalAddress)) in
      case EnsureSubTable pml4Entry Operation HookDataPresent s of
        Inl e \<Rightarrow> Inl e
      | Inr (ok1, s1) \<Rightarrow>
      if \<not> ok1 then Inr (None, s1) else
     (let pdptEntry = (PageFrameNumber (Npt s1 pml4Entry), unat (GetPpeIndex PhysicalAddress)) in
      case EnsureSubTable pdptEntry Operation HookDataPresent s1 of
        Inl e \<Rightarrow> Inl e
      | Inr (ok2, s2) \<Rightarrow>
      if \<not> ok2 then Inr (None, s2) else
     (let pdtEntry = (PageFrameNumber (Npt s2 pdptEntry), unat (GetPdeIndex PhysicalAddress)) in
      case EnsureSubTable pdtEntry Operation HookDataPresent s2 of
        Inl e \<Rightarrow> Inl e
      | Inr (ok3, s3) \<Rightarrow>
      if \<not> ok3 then Inr (None, s3) else
     (let ptEntry = (PageFrameNumber (Npt s3 pdtEntry), unat (GetPteIndex PhysicalAddress)) in
      if Operation = FindOperation then Inr (Some ptEntry, s3)
      else
        (case BuildNestedPageTableEntry ptEntry PhysicalAddress HookDataPresent s3 of
           Inl e \<Rightarrow> Inl e
         | Inr (ok4, s4) \<Rightarrow> Inr (Some ptEntry, s4))))))"

definition BuildSubTables ::
  "64 word \<Rightarrow> 64 word \<Rightarrow> bool \<Rightarrow> hook_state \<Rightarrow> fatal + (entry_ptr option \<times> hook_state)" where
  "BuildSubTables pml4Table PhysicalAddress HookDataPresent s =
     OperateOnNestedPageTables pml4Table PhysicalAddress BuildOperation HookDataPresent s"

definition GetNestedPageTableEntry ::
  "64 word \<Rightarrow> 64 word \<Rightarrow> hook_state \<Rightarrow> fatal + (entry_ptr option \<times> hook_state)" where
  "GetNestedPageTableEntry pml4Table PhysicalAddress s =
     OperateOnNestedPageTables pml4Table PhysicalAddress FindOperation False s"

section \<open>HookVmmCommon.cpp: the hook state machine\<close>

text \<open>
  The two searches return the address of the first matching element of the
  registration array, or null.
\<close>

primrec FindHookEntryByPhysicalPage ::
  "HOOK_REGISTRATION_ENTRY list \<Rightarrow> 64 word \<Rightarrow> HOOK_ENTRY option" where
  "FindHookEntryByPhysicalPage [] PhysicalAddress = None"
| "FindHookEntryByPhysicalPage (registration # rest) PhysicalAddress =
     (if PAGE_ALIGN PhysicalAddress = PAGE_ALIGN (PhyPageBase (HookEntry registration))
      then Some (HookEntry registration)
      else FindHookEntryByPhysicalPage rest PhysicalAddress)"

primrec FindHookEntryByAddress ::
  "HOOK_REGISTRATION_ENTRY list \<Rightarrow> 64 word \<Rightarrow> HOOK_ENTRY option" where
  "FindHookEntryByAddress [] VirtualAddress = None"
| "FindHookEntryByAddress (registration # rest) VirtualAddress =
     (if VirtualAddress = HookAddress (HookEntry registration)
      then Some (HookEntry registration)
      else FindHookEntryByAddress rest VirtualAddress)"

text \<open>
  \<open>for (const auto& registration : g_HookRegistrationEntries)
  ChangePermissionOfPage(HookData->Pml4Table, registration.HookEntry.PhyPageBase, v);\<close>
\<close>

primrec ChangePermissionOfHookPages ::
  "HOOK_REGISTRATION_ENTRY list \<Rightarrow> 64 word \<Rightarrow> bool \<Rightarrow> (entry_ptr \<Rightarrow> 64 word)
     \<Rightarrow> (entry_ptr \<Rightarrow> 64 word)" where
  "ChangePermissionOfHookPages [] pml4Table v mem = mem"
| "ChangePermissionOfHookPages (registration # rest) pml4Table v mem =
     ChangePermissionOfHookPages rest pml4Table v
       (ChangePermissionOfPage mem pml4Table (PhyPageBase (HookEntry registration)) v)"

text \<open>
  A null \<open>nptEntry\<close> is written through in a free build (the \<open>NT_ASSERT\<close> before it is
  compiled out): a memory fault.
\<close>

definition TransitionNptState1To2 :: "hook_state \<Rightarrow> HOOK_ENTRY \<Rightarrow> fatal + hook_state" where
  "TransitionNptState1To2 s CurrentHookEntry =
     (case ChangePermissionsOfAllPages (Npt s) (Pml4Table (Data s)) 0 True
             (MaxNptPdpEntriesUsed (Data s)) of
        Inl e \<Rightarrow> Inl e
      | Inr mem1 \<Rightarrow>
     (let s1 = s\<lparr>Npt := mem1\<rparr>
      in case GetNestedPageTableEntry (Pml4Table (Data s1)) (PhyPageBase CurrentHookEntry) s1 of
           Inl e \<Rightarrow> Inl e
         | Inr (nptEntry, s2) \<Rightarrow>
             (case nptEntry of
                None \<Rightarrow> Inl MemoryFault
              | Some p \<Rightarrow>
                  (let s3 = s2\<lparr>Npt := (Npt s2)(p := set_PageFrameNumber
                                   (GetPfnFromPa (PhyPageBaseForExecution CurrentHookEntry))
                                   (Npt s2 p))\<rparr>;
                       s4 = s3\<lparr>Npt := ChangePermissionOfPage (Npt s3) (Pml4Table (Data s3))
                                          (PhyPageBase CurrentHookEntry) False\<rparr>
                   in Inr (s4\<lparr>Data := (Data s4)\<lparr>ActiveHookEntry := Some CurrentHookEntry,
                                                   NptState := NptHookEnabledVisible\<rparr>\<rparr>)))))"

definition TransitionNtpState2To1 ::
  "HOOK_REGISTRATION_ENTRY list \<Rightarrow> hook_state \<Rightarrow> fatal + hook_state" where
  "TransitionNtpState2To1 g_HookRegistrationEntries s =
     (case ActiveHookEntry (Data s) of
        None \<Rightarrow> Inl MemoryFault
      | Some active \<Rightarrow>
     (case ChangePermissionsOfAllPages (Npt s) (Pml4Table (Data s)) (PhyPageBase active) False
             (MaxNptPdpEntriesUsed (Data s)) of
        Inl e \<Rightarrow> Inl e
      | Inr mem1 \<Rightarrow>
          (let s1 = s\<lparr>Npt := mem1\<rparr>;
               s2 = s1\<lparr>Npt := ChangePermissionOfHookPages g_HookRegistrationEntries
                                  (Pml4Table (Data s1)) True (Npt s1)\<rparr>
           in case GetNestedPageTableEntry (Pml4Table (Data s2)) (PhyPageBase active) s2 of
                Inl e \<Rightarrow> Inl e
              | Inr (nptEntry, s3) \<Rightarrow>
                  (case nptEntry of
                     None \<Rightarrow> Inl MemoryFault
                   | Some p \<Rightarrow>
                       (let s4 = s3\<lparr>Npt := (Npt s3)(p := set_PageFrameNumber
                                        (GetPfnFromPa (PhyPageBase active)) (Npt s3 p))\<rparr>
                        in Inr (s4\<lparr>Data := (Data s4)\<lparr>ActiveHookEntry := None,
                                                        NptState := NptHookEnabledInvisible\<rparr>\<rparr>))))))"

definition TransitionNptState ::
  "HOOK_REGISTRATION_ENTRY list \<Rightarrow> hook_state \<Rightarrow> 64 word \<Rightarrow> fatal + hook_state" where
  "TransitionNptState g_HookRegistrationEntries s FaultPhysicalAddress =
     (case FindHookEntryByPhysicalPage g_HookRegistrationEntries FaultPhysicalAddress of
        Some hookEntry \<Rightarrow>
          (if ActiveHookEntry (Data s) = None
           then TransitionNptState1To2 s hookEntry
           else (case TransitionNtpState2To1 g_HookRegistrationEntries s of
                   Inl e \<Rightarrow> Inl e
                 | Inr s1 \<Rightarrow> TransitionNptState1To2 s1 hookEntry))
      | None \<Rightarrow> TransitionNtpState2To1 g_HookRegistrationEntries s)"

definition HandleNestedPageFault ::
  "HOOK_REGISTRATION_ENTRY list \<Rightarrow> VMCB \<Rightarrow> hook_state \<Rightarrow> fatal + hook_state" where
  "HandleNestedPageFault g_HookRegistrationEntries guestVmcb s =
     (let faultingPa = ExitInfo2 (ControlArea guestVmcb);
          exitInfo = ExitInfo1 (ControlArea guestVmcb)
      in if NPF_EXITINFO1_Valid exitInfo = 0 then
           (case BuildSubTables (Pml4Table (Data s)) faultingPa True s of
              Inl e \<Rightarrow> Inl e
            | Inr (nptEntry, s1) \<Rightarrow>
                (case nptEntry of None \<Rightarrow> Inl BugCheck | Some p \<Rightarrow> Inr s1))
         else TransitionNptState g_HookRegistrationEntries s faultingPa)"

definition EnableHooks :: "HOOK_REGISTRATION_ENTRY list \<Rightarrow> hook_state \<Rightarrow> hook_state" where
  "EnableHooks g_HookRegistrationEntries s =
     (let s1 = s\<lparr>Npt := ChangePermissionOfHookPages g_HookRegistrationEntries
                           (Pml4Table (Data s)) True (Npt s)\<rparr>
      in s1\<lparr>Data := (Data s1)\<lparr>NptState := NptHookEnabledInvisible\<rparr>\<rparr>)"

definition DisableHooks ::
  "HOOK_REGISTRATION_ENTRY list \<Rightarrow> hook_state \<Rightarrow> fatal + hook_state" where
  "DisableHooks g_HookRegistrationEntries s =
     (if NptState (Data s) = NptHookEnabledInvisible then
        (let s1 = s\<lparr>Npt := ChangePermissionOfHookPages g_HookRegistrationEntries
                              (Pml4Table (Data s)) False (Npt s)\<rparr>
         in Inr (s1\<lparr>Data := (Data s1)\<lparr>NptState := NptDefault\<rparr>\<rparr>))
      else
        (case ActiveHookEntry (Data s) of
           None \<Rightarrow> Inl MemoryFault
         | Some active \<Rightarrow>
        (case ChangePermissionsOfAllPages (Npt s) (Pml4Table (Data s)) (PhyPageBase active) False
                (MaxNptPdpEntriesUsed (Data s)) of
           Inl e \<Rightarrow> Inl e
         | Inr mem1 \<Rightarrow>
             (let s1 = s\<lparr>Npt := mem1\<rparr>
              in case GetNestedPageTableEntry (Pml4Table (Data s1)) (PhyPageBase active) s1 of
                   Inl e \<Rightarrow> Inl e
                 | Inr (entry, s2) \<Rightarrow>
                     (case entry of
                        None \<Rightarrow> Inl MemoryFault
                      | Some p \<Rightarrow>
                          (let s3 = s2\<lparr>Npt := (Npt s2)(p := set_PageFrameNumber
                                           (GetPfnFromPa (PhyPageBase active)) (Npt s2 p))\<rparr>;
                               s4 = s3\<lparr>Data := (Data s3)\<lparr>ActiveHookEntry := None\<rparr>\<rparr>
                           in Inr (s4\<lparr>Data := (Data s4)\<lparr>NptState := NptDefault\<rparr>\<rparr>)))))))"

definition InjectBreakPointException :: "VMCB \<Rightarrow> VMCB" where
  "InjectBreakPointException guestVmcb =
     (let event = 0;
          event = set_field 0 8 3 event;
          event = set_field 8 3 3 event;
          event = set_field 31 1 1 event;
          vmcb1 = guestVmcb\<lparr>ControlArea := (ControlArea guestVmcb)\<lparr>EventInj := event\<rparr>\<rparr>
      in vmcb1\<lparr>StateSaveArea := (StateSaveArea vmcb1)\<lparr>Rip := NRip (ControlArea vmcb1)\<rparr>\<rparr>)"

definition HandleBreakPointException ::
  "HOOK_REGISTRATION_ENTRY list \<Rightarrow> VMCB \<Rightarrow> VMCB" where
  "HandleBreakPointException g_HookRegistrationEntries guestVmcb =
     (case FindHookEntryByAddress g_HookRegistrationEntries (Rip (StateSaveArea guestVmcb)) of
        Some entry \<Rightarrow>
          guestVmcb\<lparr>StateSaveArea := (StateSaveArea guestVmcb)\<lparr>Rip := Handler entry\<rparr>\<rparr>
      | None \<Rightarrow> InjectBreakPointException guestVmcb)"

section \<open>VmmMain.cpp: CPUID and MSR exits\<close>

definition InjectGeneralProtectionException ::
  "VIRTUAL_PROCESSOR_DATA \<Rightarrow> VIRTUAL_PROCESSOR_DATA" where
  "InjectGeneralProtectionException VpData =
     (let event = 0;
          event = set_field 0 8 13 event;
          event = set_field 8 3 3 event;
          event = set_field 11 1 1 event;
          event = set_field 31 1 1 event
      in VpData\<lparr>GuestVmcb := (GuestVmcb VpData)
           \<lparr>ControlArea := (ControlArea (GuestVmcb VpData))\<lparr>EventInj := event\<rparr>\<rparr>\<rparr>)"

text \<open>
  \<open>__cpuidex\<close> is the processor's own CPUID, a parameter here: leaf and sub leaf to
  EAX, EBX, ECX and EDX. \<open>registers\<close> is \<open>int[4]\<close>; storing an \<open>int\<close> into a 64-bit
  guest register extends its sign. The multi-character constants are spelled out as
  MSVC evaluates them (first character in the highest byte). The case for the
  back-door leaf has no \<open>break\<close> of its own and falls into \<open>default: break\<close>.
\<close>

definition HandleCpuid ::
  "HOOK_REGISTRATION_ENTRY list
     \<Rightarrow> (32 word \<Rightarrow> 32 word \<Rightarrow> 32 word \<times> 32 word \<times> 32 word \<times> 32 word)
     \<Rightarrow> VIRTUAL_PROCESSOR_DATA \<Rightarrow> GUEST_CONTEXT
     \<Rightarrow> fatal + (VIRTUAL_PROCESSOR_DATA \<times> GUEST_CONTEXT)" where
  "HandleCpuid g_HookRegistrationEntries cpuidex VpData GuestContext =
     (let leaf = (ucast (Rax (VpRegs GuestContext)) :: 32 word);
          subLeaf = (ucast (Rcx (VpRegs GuestContext)) :: 32 word);
          registers = (case cpuidex leaf subLeaf of (a, b, c, d) \<Rightarrow> [a, b, c, d]);
          switched =
            (if leaf = CPUID_PROCESSOR_AND_PROCESSOR_FEATURE_IDENTIFIERS then
               Inr (registers[3 := registers ! 3 OR CPUID_FN0000_0001_ECX_HYPERVISOR_PRESENT],
                    VpData, GuestContext)
             else if leaf = CPUID_HV_VENDOR_AND_MAX_FUNCTIONS then
               Inr ([CPUID_HV_MAX, 0x706D6953, 0x7653656C, 0x2020206D], VpData, GuestContext)
             else if leaf = CPUID_HV_INTERFACE then
               Inr ([0x30237648, 0, 0, 0], VpData, GuestContext)
             else if leaf = CPUID_LEAF_SIMPLE_SVM_CALL then
               (if SEGMENT_ATTRIBUTE_Dpl (SsAttrib (StateSaveArea (GuestVmcb VpData))) \<noteq> DPL_SYSTEM
                then Inr (registers, VpData, GuestContext)
                else if subLeaf = CPUID_SUBLEAF_UNLOAD_SIMPLE_SVM then
                  Inr (registers, VpData, GuestContext\<lparr>ExitVm := True\<rparr>)
                else if subLeaf = CPUID_SUBLEAF_ENABLE_HOOKS then
                  Inr (registers,
                       VpData\<lparr>HookData := EnableHooks g_HookRegistrationEntries (HookData VpData)\<rparr>,
                       GuestContext)
                else if subLeaf = CPUID_SUBLEAF_DISABLE_HOOKS then
                  (case DisableHooks g_HookRegistrationEntries (HookData VpData) of
                     Inl e \<Rightarrow> Inl e
                   | Inr h \<Rightarrow> Inr (registers, VpData\<lparr>HookData := h\<rparr>, GuestContext))
                else Inr (registers, VpData, GuestContext))
             else Inr (registers, VpData, GuestContext))
      in case switched of
           Inl e \<Rightarrow> Inl e
         | Inr (registers, VpData1, GuestContext1) \<Rightarrow>
             Inr (VpData1\<lparr>GuestVmcb := (GuestVmcb VpData1)
                    \<lparr>StateSaveArea := (StateSaveArea (GuestVmcb VpData1))
                       \<lparr>Rip := NRip (ControlArea (GuestVmcb VpData1))\<rparr>\<rparr>\<rparr>,
                  GuestContext1\<lparr>VpRegs := (VpRegs GuestContext1)
                    \<lparr>Rax := scast (registers ! 0),
                     Rbx := scast (registers ! 1),
                     Rcx := scast (registers ! 2),
                     Rdx := scast (registers ! 3)\<rparr>\<rparr>))"

definition HandleMsrAccess ::
  "VIRTUAL_PROCESSOR_DATA \<Rightarrow> GUEST_CONTEXT \<Rightarrow> VIRTUAL_PROCESSOR_DATA" where
  "HandleMsrAccess VpData GuestContext =
     (let writeValueLow = Rax (VpRegs GuestContext) AND MAXUINT32;
          VpData1 = (if writeValueLow AND EFER_SVME = 0
                     then InjectGeneralProtectionException VpData
                     else VpData);
          writeValueHi = Rdx (VpRegs GuestContext) AND MAXUINT32;
          writeValue = push_bit 32 writeValueHi OR writeValueLow;
          VpData2 = VpData1\<lparr>GuestVmcb := (GuestVmcb VpData1)
                      \<lparr>StateSaveArea := (StateSaveArea (GuestVmcb VpData1))\<lparr>Efer := writeValue\<rparr>\<rparr>\<rparr>
      in VpData2\<lparr>GuestVmcb := (GuestVmcb VpData2)
           \<lparr>StateSaveArea := (StateSaveArea (GuestVmcb VpData2))
              \<lparr>Rip := NRip (ControlArea (GuestVmcb VpData2))\<rparr>\<rparr>\<rparr>)"

section \<open>Reachable states of the hook state machine\<close>

text \<open>
  The states of one processor's hook data that the four operations of the state machine
  produce, starting from a state with \<open>NptState = NptDefault\<close> and no active hook
  (\<open>InitializeHookData\<close> zeroes the structure). \<open>EnableHooks\<close> is taken from
  \<open>NptDefault\<close> only, the condition of its first \<open>NT_ASSERT\<close>; the other three
  operations are taken wherever they return.
\<close>

inductive reachable :: "HOOK_REGISTRATION_ENTRY list \<Rightarrow> hook_state \<Rightarrow> bool"
  for g_HookRegistrationEntries :: "HOOK_REGISTRATION_ENTRY list" where
  initial:
    "NptState (Data s) = NptDefault \<Longrightarrow> ActiveHookEntry (Data s) = None
       \<Longrightarrow> reachable g_HookRegistrationEntries s"
| enable:
    "reachable g_HookRegistrationEntries s \<Longrightarrow> NptState (Data s) = NptDefault
       \<Longrightarrow> reachable g_HookRegistrationEntries (EnableHooks g_HookRegistrationEntries s)"
| disable:
    "reachable g_HookRegistrationEntries s \<Longrightarrow> DisableHooks g_HookRegistrationEntries s = Inr s'
       \<Longrightarrow> reachable g_HookRegistrationEntries s'"
| to2:
    "reachable g_HookRegistrationEntries s \<Longrightarrow> TransitionNptState1To2 s e = Inr s'
       \<Longrightarrow> reachable g_HookRegistrationEntries s'"
| to1:
    "reachable g_HookRegistrationEntries s
       \<Longrightarrow> TransitionNtpState2To1 g_HookRegistrationEntries s = Inr s'
       \<Longrightarrow> reachable g_HookRegistrationEntries s'"

definition hook_invariant :: "hook_state \<Rightarrow> bool" where
  "hook_invariant s \<longleftrightarrow>
     (ActiveHookEntry (Data s) \<noteq> None \<longleftrightarrow> NptState (Data s) = NptHookEnabledVisible)"

section \<open>The entries a walk visits\<close>

text \<open>
  The entries that \<open>OperateOnNestedPageTables\<close>, \<open>ChangePermissionOfPage\<close> and
  \<open>MakeAllSubTablesExecutable\<close> read on their way to the leaf of a physical address:
  the PML4 entry, then the PDPT, PD and PT entries in the tables named by the page
  frame number of the entry before. The walk of the source is complete when the three
  interior entries are valid.
\<close>

definition pml4_entry_ptr :: "64 word \<Rightarrow> 64 word \<Rightarrow> entry_ptr" where
  "pml4_entry_ptr pml4Table pa = (pml4Table, unat (GetPxeIndex pa))"

definition pdpt_entry_ptr :: "(entry_ptr \<Rightarrow> 64 word) \<Rightarrow> 64 word \<Rightarrow> 64 word \<Rightarrow> entry_ptr" where
  "pdpt_entry_ptr mem pml4Table pa =
     (PageFrameNumber (mem (pml4_entry_ptr pml4Table pa)), unat (GetPpeIndex pa))"

definition pd_entry_ptr :: "(entry_ptr \<Rightarrow> 64 word) \<Rightarrow> 64 word \<Rightarrow> 64 word \<Rightarrow> entry_ptr" where
  "pd_entry_ptr mem pml4Table pa =
     (PageFrameNumber (mem (pdpt_entry_ptr mem pml4Table pa)), unat (GetPdeIndex pa))"

definition pt_entry_ptr :: "(entry_ptr \<Rightarrow> 64 word) \<Rightarrow> 64 word \<Rightarrow> 64 word \<Rightarrow> entry_ptr" where
  "pt_entry_ptr mem pml4Table pa =
     (PageFrameNumber (mem (pd_entry_ptr mem pml4Table pa)), unat (GetPteIndex pa))"

definition walk_valid :: "(entry_ptr \<Rightarrow> 64 word) \<Rightarrow> 64 word \<Rightarrow> 64 word \<Rightarrow> bool" where
  "walk_valid mem pml4Table pa \<longleftrightarrow>
     Valid (mem (pml4_entry_ptr pml4Table pa)) \<noteq> 0
     \<and> Valid (mem (pdpt_entry_ptr mem pml4Table pa)) \<noteq> 0
     \<and> Valid (mem (pd_entry_ptr mem pml4Table pa)) \<noteq> 0"

text \<open>The 512 entries of the table in frame \<open>t\<close>.\<close>

definition in_table :: "64 word \<Rightarrow> entry_ptr \<Rightarrow> bool" where
  "in_table t p \<longleftrightarrow> fst p = t \<and> snd p < 512"

text \<open>
  Two memories that differ in no-execute bits only; the walks of both visit the same
  entries.
\<close>

definition nx_only :: "(entry_ptr \<Rightarrow> 64 word) \<Rightarrow> (entry_ptr \<Rightarrow> 64 word) \<Rightarrow> bool" where
  "nx_only m m' \<longleftrightarrow> (\<forall>p. set_NoExecute 0 (m' p) = set_NoExecute 0 (m p))"

text \<open>The leaf entries of the registered hook pages.\<close>

definition hook_leaves ::
  "(entry_ptr \<Rightarrow> 64 word) \<Rightarrow> 64 word \<Rightarrow> HOOK_REGISTRATION_ENTRY list \<Rightarrow> entry_ptr set" where
  "hook_leaves mem t regs = (\<lambda>r. pt_entry_ptr mem t (PhyPageBase (HookEntry r))) ` set regs"

text \<open>
  What the tables are like after \<open>BuildNestedPageTables\<close>, as far as the hook pages go:
  no entry on the walk of a hook page has the no-execute bit (the pages of the tables are
  zeroed and \<open>BuildNestedPageTableEntry\<close> never sets it), and the page table (PT) of a
  hook page is not at the same time the PDPT or the PD of a hook page (every table of the
  tree is a page of its own).
\<close>

definition hook_walks_executable ::
  "(entry_ptr \<Rightarrow> 64 word) \<Rightarrow> 64 word \<Rightarrow> HOOK_REGISTRATION_ENTRY list \<Rightarrow> bool" where
  "hook_walks_executable mem t regs \<longleftrightarrow>
     (\<forall>r \<in> set regs.
        NoExecute (mem (pdpt_entry_ptr mem t (PhyPageBase (HookEntry r)))) = 0
        \<and> NoExecute (mem (pd_entry_ptr mem t (PhyPageBase (HookEntry r)))) = 0
        \<and> NoExecute (mem (pt_entry_ptr mem t (PhyPageBase (HookEntry r)))) = 0)"

definition hook_tables_apart ::
  "(entry_ptr \<Rightarrow> 64 word) \<Rightarrow> 64 word \<Rightarrow> HOOK_REGISTRATION_ENTRY list \<Rightarrow> bool" where
  "hook_tables_apart mem t regs \<longleftrightarrow>
     (\<forall>r \<in> set regs. \<forall>r' \<in> set regs.
        fst (pt_entry_ptr mem t (PhyPageBase (HookEntry r))) \<noteq>
          fst (pdpt_entry_ptr mem t (PhyPageBase (HookEntry r')))
        \<and> fst (pt_entry_ptr mem t (PhyPageBase (HookEntry r))) \<noteq>
          fst (pd_entry_ptr mem t (PhyPageBase (HookEntry r'))))"

text \<open>The three interior entries on the walk of a physical address.\<close>

definition interior_entries ::
  "(entry_ptr \<Rightarrow> 64 word) \<Rightarrow> 64 word \<Rightarrow> 64 word \<Rightarrow> entry_ptr set" where
  "interior_entries mem t pa =
     {pml4_entry_ptr t pa, pdpt_entry_ptr mem t pa, pd_entry_ptr mem t pa}"

section \<open>Building a missing mapping\<close>

text \<open>
  The interior entries on the walk of a physical address, from the PML4 down, and how
  many of the three tables below the PML4 the walk does not reach yet: 3 when the PML4
  entry is not valid, 2 when the PDPT entry is not, 1 when the PD entry is not. An
  address is mapped when the walk is complete and its leaf entry is valid.
\<close>

definition walk_entries :: "(entry_ptr \<Rightarrow> 64 word) \<Rightarrow> 64 word \<Rightarrow> 64 word \<Rightarrow> entry_ptr list" where
  "walk_entries mem t pa = [pml4_entry_ptr t pa, pdpt_entry_ptr mem t pa, pd_entry_ptr mem t pa]"

definition missing_tables :: "(entry_ptr \<Rightarrow> 64 word) \<Rightarrow> 64 word \<Rightarrow> 64 word \<Rightarrow> nat" where
  "missing_tables mem t pa =
     (if Valid (mem (pml4_entry_ptr t pa)) = 0 then 3
      else if Valid (mem (pdpt_entry_ptr mem t pa)) = 0 then 2
      else if Valid (mem (pd_entry_ptr mem t pa)) = 0 then 1
      else 0)"

definition mapped :: "(entry_ptr \<Rightarrow> 64 word) \<Rightarrow> 64 word \<Rightarrow> 64 word \<Rightarrow> bool" where
  "mapped mem t pa \<longleftrightarrow> walk_valid mem t pa \<and> Valid (mem (pt_entry_ptr mem t pa)) \<noteq> 0"

text \<open>
  The tables the walk reaches, and the entries of the pre-allocated pool that
  \<open>AllocateNptEntry\<close> hands out next. The pool is ready for an address when it still
  holds one entry for each missing table, and these entries are as
  \<open>InitializePreAllocatedEntries\<close> left them: pages of their own (different from each
  other and from the tables of the walk), zeroed, with a frame number of at most 40 bits.
\<close>

definition present_tables :: "(entry_ptr \<Rightarrow> 64 word) \<Rightarrow> 64 word \<Rightarrow> 64 word \<Rightarrow> 64 word list" where
  "present_tables mem t pa =
     take (4 - missing_tables mem t pa)
       [t, fst (pdpt_entry_ptr mem t pa), fst (pd_entry_ptr mem t pa), fst (pt_entry_ptr mem t pa)]"

definition next_pool_entries :: "hook_state \<Rightarrow> nat \<Rightarrow> 64 word list" where
  "next_pool_entries s k =
     take k (drop (unat (UsedPreAllocatedEntriesCount (Data s))) (PreAllocatedNptEntries (Data s)))"

definition pool_ready :: "hook_state \<Rightarrow> 64 word \<Rightarrow> bool" where
  "pool_ready s pa \<longleftrightarrow>
     length (PreAllocatedNptEntries (Data s)) = 50
     \<and> unat (UsedPreAllocatedEntriesCount (Data s))
           + missing_tables (Npt s) (Pml4Table (Data s)) pa \<le> 50
     \<and> distinct (next_pool_entries s (missing_tables (Npt s) (Pml4Table (Data s)) pa))
     \<and> (\<forall>f \<in> set (next_pool_entries s (missing_tables (Npt s) (Pml4Table (Data s)) pa)).
           f < 2 ^ 40
           \<and> f \<notin> set (present_tables (Npt s) (Pml4Table (Data s)) pa)
           \<and> (\<forall>i < 512. Npt s (f, i) = 0))"

text \<open>
  What building the mapping of \<open>pa\<close> with \<open>k\<close> new tables does to the state: \<open>k\<close> pool
  entries are used and nothing else of the hook data changes; the walk is complete; the
  leaf entry, not valid before, holds the frame of \<open>pa\<close>; the last \<open>k\<close> interior
  entries of the walk, not valid before, are valid, writable and user accessible; and
  every other entry of every table is as it was.
\<close>

definition mapping_built :: "hook_state \<Rightarrow> hook_state \<Rightarrow> 64 word \<Rightarrow> nat \<Rightarrow> bool" where
  "mapping_built s s' pa k \<longleftrightarrow>
     Data s' = (Data s)\<lparr>UsedPreAllocatedEntriesCount :=
                           UsedPreAllocatedEntriesCount (Data s) + of_nat k\<rparr>
     \<and> KernelPool s' = KernelPool s
     \<and> walk_valid (Npt s') (Pml4Table (Data s)) pa
     \<and> Valid (Npt s (pt_entry_ptr (Npt s') (Pml4Table (Data s)) pa)) = 0
     \<and> Npt s' (pt_entry_ptr (Npt s') (Pml4Table (Data s)) pa) =
         InitializeEntry (GetPfnFromPa pa) (Npt s (pt_entry_ptr (Npt s') (Pml4Table (Data s)) pa))
     \<and> (\<forall>q \<in> set (drop (3 - k) (walk_entries (Npt s') (Pml4Table (Data s)) pa)).
           Valid (Npt s q) = 0 \<and> Valid (Npt s' q) = 1 \<and> Write (Npt s' q) = 1
           \<and> User (Npt s' q) = 1)
     \<and> distinct (pt_entry_ptr (Npt s') (Pml4Table (Data s)) pa
                   # drop (3 - k) (walk_entries (Npt s') (Pml4Table (Data s)) pa))
     \<and> (\<forall>p. p \<notin> set (pt_entry_ptr (Npt s') (Pml4Table (Data s)) pa
                         # drop (3 - k) (walk_entries (Npt s') (Pml4Table (Data s)) pa))
              \<longrightarrow> Npt s' p = Npt s p)"

section \<open>A concrete configuration\<close>

text \<open>
  Two hooks on the physical pages 0x5000 and 0x6000 (exec copies at 0x9000 and 0xA000),
  and a nested page table with the PML4 in frame 1, one PDPT (frame 2), one PD (frame 3)
  and one PT (frame 4) that maps the pages 0x5000, 0x6000 and 0x7000 onto themselves.
  The pool holds the frames 256 to 305, none used.
\<close>

definition example_hooks :: "HOOK_REGISTRATION_ENTRY list" where
  "example_hooks =
     [\<lparr>FunctionName = ''ZwQuerySystemInformation'', RegistrationHandler = 0xFFFFF80000101000,
       HookEntry = \<lparr>HookAddress = 0xFFFFF80000005230, Handler = 0xFFFFF80000101000,
                    PageBaseForExecution = 0xFFFFF80000209000, PhyPageBase = 0x5000,
                    PhyPageBaseForExecution = 0x9000, OriginalCallStub = 0xFFFFF80000301000\<rparr>\<rparr>,
      \<lparr>FunctionName = ''ExAllocatePoolWithTag'', RegistrationHandler = 0xFFFFF80000102000,
       HookEntry = \<lparr>HookAddress = 0xFFFFF80000006010, Handler = 0xFFFFF80000102000,
                    PageBaseForExecution = 0xFFFFF8000020A000, PhyPageBase = 0x6000,
                    PhyPageBaseForExecution = 0xA000, OriginalCallStub = 0xFFFFF80000302000\<rparr>\<rparr>]"

definition example_npt :: "entry_ptr \<Rightarrow> 64 word" where
  "example_npt =
     (\<lambda>p. 0)((1, 0) := 0x2007, (2, 0) := 0x3007, (3, 0) := 0x4007,
             (4, 5) := 0x5007, (4, 6) := 0x6007, (4, 7) := 0x7007)"

definition example_state :: hook_state where
  "example_state =
     \<lparr>Npt = example_npt, KernelPool = [],
      Data = \<lparr>Pml4Table = 1, PreAllocatedNptEntries = map of_nat [256..<306],
               UsedPreAllocatedEntriesCount = 0, MaxNptPdpEntriesUsed = 1,
               ActiveHookEntry = None, NptState = NptDefault\<rparr>\<rparr>"

definition example_vmcb :: VMCB where
  "example_vmcb =
     \<lparr>ControlArea = \<lparr>ExitCode = 0x7C, ExitInfo1 = 1, ExitInfo2 = 0, EventInj = 0,
                      NRip = 0xFFFFF80000700002\<rparr>,
      StateSaveArea = \<lparr>SsAttrib = 0x93, Efer = 0x1D01, Rip = 0xFFFFF80000700000\<rparr>\<rparr>"

definition example_vp :: VIRTUAL_PROCESSOR_DATA where
  "example_vp = \<lparr>GuestVmcb = example_vmcb, HookData = example_state\<rparr>"

text \<open>A processor whose CPUID leaf 1 has bit 31 clear in both ECX and EDX.\<close>

definition example_cpuid ::
  "32 word \<Rightarrow> 32 word \<Rightarrow> 32 word \<times> 32 word \<times> 32 word \<times> 32 word" where
  "example_cpuid leaf subLeaf =
     (if leaf = 1 then (0x00800F11, 0x00100800, 0x7ED8320B, 0x178BFBFF) else (0, 0, 0, 0))"

text \<open>
  The guest in user mode (SS.DPL = 3) executing CPUID with EAX = 0x41414141 and
  ECX = 0x41414142, and the guest at a breakpoint on the first hook address.
\<close>

definition example_user_vp :: VIRTUAL_PROCESSOR_DATA where
  "example_user_vp =
     example_vp\<lparr>GuestVmcb := example_vmcb\<lparr>StateSaveArea :=
       (StateSaveArea example_vmcb)\<lparr>SsAttrib := 0xF3\<rparr>\<rparr>\<rparr>"

definition example_backdoor_context :: GUEST_CONTEXT where
  "example_backdoor_context =
     \<lparr>VpRegs = \<lparr>Rbx = 0, Rdx = 0, Rcx = 0x41414142, Rax = 0x41414141\<rparr>, ExitVm = False\<rparr>"

definition example_hook_vmcb :: VMCB where
  "example_hook_vmcb =
     example_vmcb\<lparr>StateSaveArea := (StateSaveArea example_vmcb)\<lparr>Rip := 0xFFFFF80000005230\<rparr>\<rparr>"

definition example_full_pool_state :: hook_state where
  "example_full_pool_state =
     example_state\<lparr>Data := (Data example_state)\<lparr>UsedPreAllocatedEntriesCount := 50\<rparr>\<rparr>"

text \<open>The same tables with the no-execute bit set in the PDPT entry.\<close>

definition example_nx_npt :: "entry_ptr \<Rightarrow> 64 word" where
  "example_nx_npt = example_npt((2, 0) := 0x8000000000003007)"






text \<open>
  A nested page fault on a page that is not present (ExitInfo1.Valid = 0), a write from
  user mode at the physical address 0xFED00000, which the example tables do not map.
\<close>

definition example_mmio_vmcb :: VMCB where
  "example_mmio_vmcb =
     example_vmcb\<lparr>ControlArea := (ControlArea example_vmcb)
       \<lparr>ExitCode := 0x400, ExitInfo1 := 0x100000006, ExitInfo2 := 0xFED00000\<rparr>\<rparr>"


section \<open>Bit fields\<close>

lemma bit_set_field:
  "bit (set_field lo w v e) n \<longleftrightarrow>
     (if lo \<le> n \<and> n < lo + w then bit v (n - lo) \<and> n < 64 else bit e n)"
  by (auto simp: set_field_def bit_simps dest: bit_imp_le_length)

lemma bit_get_field:
  "bit (get_field lo w e) n \<longleftrightarrow> n < w \<and> bit e (lo + n)"
  by (auto simp: get_field_def bit_simps ac_simps)

lemma get_set_field_same:
  "lo + w \<le> 64 \<Longrightarrow> get_field lo w (set_field lo w v e) = take_bit w v"
  by (rule bit_word_eqI) (auto simp: bit_get_field bit_set_field bit_simps)

lemma get_set_field_other:
  "lo' + w' \<le> lo \<or> lo + w \<le> lo' \<Longrightarrow> get_field lo' w' (set_field lo w v e) = get_field lo' w' e"
  by (rule bit_word_eqI) (auto simp: bit_get_field bit_set_field bit_simps)

lemma set_set_field_same:
  "set_field lo w v (set_field lo w v' e) = set_field lo w v e"
  by (rule bit_word_eqI) (auto simp: bit_set_field)

lemma set_get_field_same:
  "set_field lo w (get_field lo w e) e = e"
  by (rule bit_word_eqI) (auto simp: bit_set_field bit_get_field dest: bit_imp_le_length)

lemma set_field_commute:
  "lo' + w' \<le> lo \<or> lo + w \<le> lo' \<Longrightarrow>
     set_field lo w v (set_field lo' w' v' e) = set_field lo' w' v' (set_field lo w v e)"
  by (rule bit_word_eqI) (auto simp: bit_set_field)

lemma take_bit_1_of_BOOLEAN: "take_bit (Suc 0) (of_BOOLEAN b) = of_BOOLEAN b"
  by (cases b) (simp_all add: of_BOOLEAN_def)

lemma get_field_1: "get_field lo 1 e = (if bit e lo then 1 else 0)"
  by (rule bit_word_eqI) (auto simp: bit_get_field bit_simps)

lemma of_BOOLEAN_mod_2: "of_BOOLEAN b mod 2 = of_BOOLEAN b"
  by (cases b) (simp_all add: of_BOOLEAN_def)

lemma get_field_Suc_0: "get_field lo (Suc 0) e = (if bit e lo then 1 else 0)"
  using get_field_1 [of lo e] by simp

lemma set_field_1: "lo < 64 \<Longrightarrow> set_field lo 1 (of_BOOLEAN b) e = (if b then set_bit lo e else unset_bit lo e)"
  by (rule bit_word_eqI) (auto simp: bit_set_field bit_simps of_BOOLEAN_def)

section \<open>Event injection values\<close>

lemma InjectBreakPointException_eq:
  "InjectBreakPointException v =
     v\<lparr>ControlArea := (ControlArea v)\<lparr>EventInj := 0x80000303\<rparr>,
       StateSaveArea := (StateSaveArea v)\<lparr>Rip := NRip (ControlArea v)\<rparr>\<rparr>"
  by (simp add: InjectBreakPointException_def Let_def set_field_def mask_eq_exp_minus_1)

lemma InjectGeneralProtectionException_eq:
  "InjectGeneralProtectionException vp =
     vp\<lparr>GuestVmcb := (GuestVmcb vp)
          \<lparr>ControlArea := (ControlArea (GuestVmcb vp))\<lparr>EventInj := 0x80000B0D\<rparr>\<rparr>\<rparr>"
  by (simp add: InjectGeneralProtectionException_def Let_def set_field_def mask_eq_exp_minus_1)

lemma breakpoint_event_fields:
  "EVENTINJ_Vector 0x80000303 = 3" "EVENTINJ_Type 0x80000303 = 3"
  "EVENTINJ_ErrorCodeValid 0x80000303 = 0" "EVENTINJ_Valid 0x80000303 = 1"
  "EVENTINJ_ErrorCode 0x80000303 = 0"
  by (simp_all add: get_field_def EVENTINJ_Vector_def EVENTINJ_Type_def
        EVENTINJ_ErrorCodeValid_def EVENTINJ_Valid_def EVENTINJ_ErrorCode_def)

lemma general_protection_event_fields:
  "EVENTINJ_Vector 0x80000B0D = 13" "EVENTINJ_Type 0x80000B0D = 3"
  "EVENTINJ_ErrorCodeValid 0x80000B0D = 1" "EVENTINJ_Valid 0x80000B0D = 1"
  "EVENTINJ_ErrorCode 0x80000B0D = 0"
  by (simp_all add: get_field_def EVENTINJ_Vector_def EVENTINJ_Type_def
        EVENTINJ_ErrorCodeValid_def EVENTINJ_Valid_def EVENTINJ_ErrorCode_def)

section \<open>The breakpoint exit\<close>

lemma FindHookEntryByAddress_Some:
  "FindHookEntryByAddress regs va = Some e \<Longrightarrow>
     \<exists>r \<in> set regs. HookEntry r = e \<and> HookAddress e = va"
  by (induction regs) (auto split: if_splits)

lemma FindHookEntryByAddress_None:
  "FindHookEntryByAddress regs va = None \<longleftrightarrow>
     (\<forall>r \<in> set regs. HookAddress (HookEntry r) \<noteq> va)"
  by (induction regs) (auto split: if_splits)

text \<open>
  C8. On a #BP exit, when a registered hook entry has its hook address at the guest RIP,
  the guest RIP becomes the handler of such an entry (the first one in the registration
  array) and nothing else of the VMCB changes, so no event is injected. When no entry
  has, the event injected is vector 3, type 3 (exception), valid, without an error code
  (the word 0x80000303), and the guest RIP becomes NRip.
\<close>

theorem HandleBreakPointException_redirects_or_reinjects:
  "((\<exists>r \<in> set regs. HookAddress (HookEntry r) = Rip (StateSaveArea v)) \<longrightarrow>
      (\<exists>r \<in> set regs. HookAddress (HookEntry r) = Rip (StateSaveArea v) \<and>
         HandleBreakPointException regs v =
           v\<lparr>StateSaveArea := (StateSaveArea v)\<lparr>Rip := Handler (HookEntry r)\<rparr>\<rparr>))
   \<and> ((\<forall>r \<in> set regs. HookAddress (HookEntry r) \<noteq> Rip (StateSaveArea v)) \<longrightarrow>
        HandleBreakPointException regs v =
          v\<lparr>ControlArea := (ControlArea v)\<lparr>EventInj := 0x80000303\<rparr>,
            StateSaveArea := (StateSaveArea v)\<lparr>Rip := NRip (ControlArea v)\<rparr>\<rparr>
        \<and> EVENTINJ_Vector (EventInj (ControlArea (HandleBreakPointException regs v))) = 3
        \<and> EVENTINJ_Type (EventInj (ControlArea (HandleBreakPointException regs v))) = 3
        \<and> EVENTINJ_ErrorCodeValid (EventInj (ControlArea (HandleBreakPointException regs v))) = 0
        \<and> EVENTINJ_Valid (EventInj (ControlArea (HandleBreakPointException regs v))) = 1
        \<and> Rip (StateSaveArea (HandleBreakPointException regs v)) = NRip (ControlArea v))"
proof (rule conjI; rule impI)
  assume "\<exists>r \<in> set regs. HookAddress (HookEntry r) = Rip (StateSaveArea v)"
  then have "FindHookEntryByAddress regs (Rip (StateSaveArea v)) \<noteq> None"
    by (simp add: FindHookEntryByAddress_None)
  then obtain e where e: "FindHookEntryByAddress regs (Rip (StateSaveArea v)) = Some e"
    by blast
  from FindHookEntryByAddress_Some [OF e] obtain r where "r \<in> set regs" "HookEntry r = e"
    "HookAddress e = Rip (StateSaveArea v)" by blast
  with e show "\<exists>r \<in> set regs. HookAddress (HookEntry r) = Rip (StateSaveArea v) \<and>
         HandleBreakPointException regs v =
           v\<lparr>StateSaveArea := (StateSaveArea v)\<lparr>Rip := Handler (HookEntry r)\<rparr>\<rparr>"
    by (auto simp: HandleBreakPointException_def intro!: bexI [of _ r])
next
  assume "\<forall>r \<in> set regs. HookAddress (HookEntry r) \<noteq> Rip (StateSaveArea v)"
  then have "FindHookEntryByAddress regs (Rip (StateSaveArea v)) = None"
    by (simp add: FindHookEntryByAddress_None)
  then have *: "HandleBreakPointException regs v = InjectBreakPointException v"
    by (simp add: HandleBreakPointException_def)
  show "HandleBreakPointException regs v =
          v\<lparr>ControlArea := (ControlArea v)\<lparr>EventInj := 0x80000303\<rparr>,
            StateSaveArea := (StateSaveArea v)\<lparr>Rip := NRip (ControlArea v)\<rparr>\<rparr>
        \<and> EVENTINJ_Vector (EventInj (ControlArea (HandleBreakPointException regs v))) = 3
        \<and> EVENTINJ_Type (EventInj (ControlArea (HandleBreakPointException regs v))) = 3
        \<and> EVENTINJ_ErrorCodeValid (EventInj (ControlArea (HandleBreakPointException regs v))) = 0
        \<and> EVENTINJ_Valid (EventInj (ControlArea (HandleBreakPointException regs v))) = 1
        \<and> Rip (StateSaveArea (HandleBreakPointException regs v)) = NRip (ControlArea v)"
    by (simp add: * InjectBreakPointException_eq breakpoint_event_fields)
qed

theorem HandleBreakPointException_witness:
  "HandleBreakPointException example_hooks example_hook_vmcb =
     example_hook_vmcb\<lparr>StateSaveArea :=
       (StateSaveArea example_hook_vmcb)\<lparr>Rip := 0xFFFFF80000101000\<rparr>\<rparr>
   \<and> HandleBreakPointException example_hooks example_vmcb =
       example_vmcb\<lparr>ControlArea := (ControlArea example_vmcb)\<lparr>EventInj := 0x80000303\<rparr>,
         StateSaveArea := (StateSaveArea example_vmcb)\<lparr>Rip := 0xFFFFF80000700002\<rparr>\<rparr>"
proof
  have "\<exists>r \<in> set example_hooks. HookAddress (HookEntry r) = Rip (StateSaveArea example_hook_vmcb)"
    by (simp add: example_hooks_def example_hook_vmcb_def example_vmcb_def)
  with HandleBreakPointException_redirects_or_reinjects [of example_hooks example_hook_vmcb]
  obtain r where "r \<in> set example_hooks"
    "HookAddress (HookEntry r) = Rip (StateSaveArea example_hook_vmcb)"
    "HandleBreakPointException example_hooks example_hook_vmcb =
       example_hook_vmcb\<lparr>StateSaveArea :=
         (StateSaveArea example_hook_vmcb)\<lparr>Rip := Handler (HookEntry r)\<rparr>\<rparr>"
    by blast
  then show "HandleBreakPointException example_hooks example_hook_vmcb =
     example_hook_vmcb\<lparr>StateSaveArea :=
       (StateSaveArea example_hook_vmcb)\<lparr>Rip := 0xFFFFF80000101000\<rparr>\<rparr>"
    by (auto simp: example_hooks_def example_hook_vmcb_def example_vmcb_def)
next
  have "\<forall>r \<in> set example_hooks. HookAddress (HookEntry r) \<noteq> Rip (StateSaveArea example_vmcb)"
    by (simp add: example_hooks_def example_vmcb_def)
  with HandleBreakPointException_redirects_or_reinjects [of example_hooks example_vmcb]
  show "HandleBreakPointException example_hooks example_vmcb =
       example_vmcb\<lparr>ControlArea := (ControlArea example_vmcb)\<lparr>EventInj := 0x80000303\<rparr>,
         StateSaveArea := (StateSaveArea example_vmcb)\<lparr>Rip := 0xFFFFF80000700002\<rparr>\<rparr>"
    by (simp add: example_vmcb_def)
qed

section \<open>The MSR exit\<close>

lemma HandleMsrAccess_always_writes:
  "Efer (StateSaveArea (GuestVmcb (HandleMsrAccess vp gc))) =
     push_bit 32 (Rdx (VpRegs gc) AND MAXUINT32) OR (Rax (VpRegs gc) AND MAXUINT32)
   \<and> Rip (StateSaveArea (GuestVmcb (HandleMsrAccess vp gc))) = NRip (ControlArea (GuestVmcb vp))"
  by (simp add: HandleMsrAccess_def Let_def InjectGeneralProtectionException_eq)

text \<open>
  C5. The guest writes EFER with EDX:EAX = 0x0000000000000D01, a value with SVME (bit 12)
  clear, while the VMCB holds EFER = 0x1D01 and RIP = 0xFFFFF80000700000. The handler
  injects #GP(0) (the word 0x80000B0D) and then goes on as for a permitted write: the
  VMCB's EFER becomes 0x0D01 and RIP becomes NRip. The function has no \<open>else\<close> and no
  return after the injection.
\<close>

theorem HandleMsrAccess_writes_efer_with_svme_clear:
  "HandleMsrAccess example_vp
     \<lparr>VpRegs = \<lparr>Rbx = 0, Rdx = 0, Rcx = 0xC0000080, Rax = 0x0D01\<rparr>, ExitVm = False\<rparr> =
   example_vp\<lparr>GuestVmcb :=
     \<lparr>ControlArea = (ControlArea example_vmcb)\<lparr>EventInj := 0x80000B0D\<rparr>,
      StateSaveArea = (StateSaveArea example_vmcb)\<lparr>Efer := 0x0D01, Rip := 0xFFFFF80000700002\<rparr>\<rparr>\<rparr>"
  by (simp add: HandleMsrAccess_def Let_def InjectGeneralProtectionException_eq example_vp_def
        example_vmcb_def MAXUINT32_def EFER_SVME_def)

section \<open>The CPUID exit\<close>

text \<open>
  C6. CPUID leaf 1 on a processor that reports ECX = 0x7ED8320B and EDX = 0x178BFBFF.
  The handler ORs bit 31 into \<open>registers[3]\<close>, which is EDX: the guest's RCX is the
  processor's ECX with bit 31 still clear, and the guest's RDX is the sign extension of
  EDX with bit 31 set.
\<close>

theorem HandleCpuid_leaf1_sets_bit31_of_edx:
  "HandleCpuid example_hooks example_cpuid example_vp
     \<lparr>VpRegs = \<lparr>Rbx = 0, Rdx = 0, Rcx = 0, Rax = 1\<rparr>, ExitVm = False\<rparr> =
   Inr (example_vp\<lparr>GuestVmcb := example_vmcb\<lparr>StateSaveArea :=
          (StateSaveArea example_vmcb)\<lparr>Rip := 0xFFFFF80000700002\<rparr>\<rparr>\<rparr>,
        \<lparr>VpRegs = \<lparr>Rbx = 0x00100800, Rdx = 0xFFFFFFFF978BFBFF, Rcx = 0x7ED8320B,
                   Rax = 0x00800F11\<rparr>,
         ExitVm = False\<rparr>)"
  by (simp add: HandleCpuid_def Let_def example_cpuid_def example_vp_def example_vmcb_def
        CPUID_PROCESSOR_AND_PROCESSOR_FEATURE_IDENTIFIERS_def
        CPUID_FN0000_0001_ECX_HYPERVISOR_PRESENT_def)

lemma ucast_scast_int_register: "(ucast (scast (a :: 32 word) :: 64 word) :: 32 word) = a"
  by (rule bit_word_eqI) (auto simp: bit_simps)

text \<open>
  C9. CPUID with EAX = 0x41414141 while SS.DPL is not 0: the handler returns, the hook
  data (NPT state, active hook, tables, pool) and the unload flag are as before, the guest
  registers RAX, RBX, RCX, RDX hold the processor's CPUID results (as \<open>int\<close>s stored
  into 64-bit registers, so EAX to EDX are the processor's values), and RIP is NRip.
\<close>

theorem HandleCpuid_backdoor_ignored_outside_kernel:
  assumes "ucast (Rax (VpRegs gc)) = CPUID_LEAF_SIMPLE_SVM_CALL"
    and "SEGMENT_ATTRIBUTE_Dpl (SsAttrib (StateSaveArea (GuestVmcb vp))) \<noteq> DPL_SYSTEM"
    and "cpuidex (ucast (Rax (VpRegs gc))) (ucast (Rcx (VpRegs gc))) = (a, b, c, d)"
  shows "\<exists>vp' gc'. HandleCpuid regs cpuidex vp gc = Inr (vp', gc')
           \<and> HookData vp' = HookData vp
           \<and> ExitVm gc' = ExitVm gc
           \<and> vp' = vp\<lparr>GuestVmcb := (GuestVmcb vp)\<lparr>StateSaveArea :=
                      (StateSaveArea (GuestVmcb vp))\<lparr>Rip := NRip (ControlArea (GuestVmcb vp))\<rparr>\<rparr>\<rparr>
           \<and> gc' = gc\<lparr>VpRegs := (VpRegs gc)\<lparr>Rax := scast a, Rbx := scast b,
                                                Rcx := scast c, Rdx := scast d\<rparr>\<rparr>
           \<and> ucast (Rax (VpRegs gc')) = a \<and> ucast (Rbx (VpRegs gc')) = b
           \<and> ucast (Rcx (VpRegs gc')) = c \<and> ucast (Rdx (VpRegs gc')) = d"
  using assms
  by (simp add: HandleCpuid_def Let_def CPUID_LEAF_SIMPLE_SVM_CALL_def
        CPUID_PROCESSOR_AND_PROCESSOR_FEATURE_IDENTIFIERS_def
        CPUID_HV_VENDOR_AND_MAX_FUNCTIONS_def CPUID_HV_INTERFACE_def ucast_scast_int_register)

theorem HandleCpuid_backdoor_ignored_witness:
  "\<exists>vp' gc'. HandleCpuid example_hooks example_cpuid example_user_vp example_backdoor_context =
       Inr (vp', gc')
     \<and> HookData vp' = example_state
     \<and> ExitVm gc' = False
     \<and> Rip (StateSaveArea (GuestVmcb vp')) = 0xFFFFF80000700002
     \<and> VpRegs gc' = \<lparr>Rbx = 0, Rdx = 0, Rcx = 0, Rax = 0\<rparr>"
proof -
  have 1: "ucast (Rax (VpRegs example_backdoor_context)) = CPUID_LEAF_SIMPLE_SVM_CALL"
    by (simp add: example_backdoor_context_def CPUID_LEAF_SIMPLE_SVM_CALL_def)
  have 2: "SEGMENT_ATTRIBUTE_Dpl (SsAttrib (StateSaveArea (GuestVmcb example_user_vp))) \<noteq> DPL_SYSTEM"
    by (simp add: example_user_vp_def SEGMENT_ATTRIBUTE_Dpl_def get_field_def DPL_SYSTEM_def)
  have 3: "example_cpuid (ucast (Rax (VpRegs example_backdoor_context)))
             (ucast (Rcx (VpRegs example_backdoor_context))) = (0, 0, 0, 0)"
    by (simp add: example_backdoor_context_def example_cpuid_def)
  from HandleCpuid_backdoor_ignored_outside_kernel
    [where gc = example_backdoor_context and vp = example_user_vp and cpuidex = example_cpuid
       and regs = example_hooks, OF 1 2 3]
  show ?thesis
    by (auto simp: example_user_vp_def example_vp_def example_vmcb_def example_backdoor_context_def)
qed

section \<open>The pre-allocated pool\<close>

text \<open>
  C10. With at most 50 of the 50 pre-allocated entries used, an allocation from the pool
  either stops the system with a bug check, exactly when all 50 are used, or returns the
  next unused entry of the array and leaves the counter one higher and still at most 50.
\<close>

theorem AllocateNptEntry_keeps_pool_bound:
  assumes "unat (UsedPreAllocatedEntriesCount (Data s)) \<le> 50"
    and "length (PreAllocatedNptEntries (Data s)) = 50"
  shows "(unat (UsedPreAllocatedEntriesCount (Data s)) = 50 \<longrightarrow>
            AllocateNptEntry True s = Inl BugCheck)
    \<and> (unat (UsedPreAllocatedEntriesCount (Data s)) < 50 \<longrightarrow>
         (\<exists>s'. AllocateNptEntry True s =
                  Inr (Some (PreAllocatedNptEntries (Data s) !
                               unat (UsedPreAllocatedEntriesCount (Data s))), s')
              \<and> unat (UsedPreAllocatedEntriesCount (Data s')) =
                  unat (UsedPreAllocatedEntriesCount (Data s)) + 1
              \<and> unat (UsedPreAllocatedEntriesCount (Data s')) \<le> 50))"
proof -
  have "unat (UsedPreAllocatedEntriesCount (Data s) + 1) =
          unat (UsedPreAllocatedEntriesCount (Data s)) + 1"
    using assms(1) by (simp add: unat_word_ariths)
  then show ?thesis
    using assms by (auto simp: AllocateNptEntry_def Let_def)
qed

theorem AllocateNptEntry_pool_bound_witness:
  "AllocateNptEntry True example_full_pool_state = Inl BugCheck
   \<and> (\<exists>s'. AllocateNptEntry True example_state = Inr (Some 256, s')
          \<and> unat (UsedPreAllocatedEntriesCount (Data s')) = 1)"
proof
  have "unat (UsedPreAllocatedEntriesCount (Data example_full_pool_state)) \<le> 50"
    "length (PreAllocatedNptEntries (Data example_full_pool_state)) = 50"
    "unat (UsedPreAllocatedEntriesCount (Data example_full_pool_state)) = 50"
    by (simp_all add: example_full_pool_state_def example_state_def)
  with AllocateNptEntry_keeps_pool_bound [of example_full_pool_state]
  show "AllocateNptEntry True example_full_pool_state = Inl BugCheck"
    by blast
next
  have "unat (UsedPreAllocatedEntriesCount (Data example_state)) \<le> 50"
    "length (PreAllocatedNptEntries (Data example_state)) = 50"
    "unat (UsedPreAllocatedEntriesCount (Data example_state)) < 50"
    by (simp_all add: example_state_def)
  with AllocateNptEntry_keeps_pool_bound [of example_state]
  obtain s' where "AllocateNptEntry True example_state =
      Inr (Some (PreAllocatedNptEntries (Data example_state) !
                   unat (UsedPreAllocatedEntriesCount (Data example_state))), s')"
    "unat (UsedPreAllocatedEntriesCount (Data s')) =
       unat (UsedPreAllocatedEntriesCount (Data example_state)) + 1"
    by blast
  moreover have "PreAllocatedNptEntries (Data example_state) !
                   unat (UsedPreAllocatedEntriesCount (Data example_state)) = 256"
    by (simp add: example_state_def upt_rec)
  ultimately show "\<exists>s'. AllocateNptEntry True example_state = Inr (Some 256, s')
          \<and> unat (UsedPreAllocatedEntriesCount (Data s')) = 1"
    by (auto simp: example_state_def)
qed

section \<open>The state invariant\<close>

lemma find_keeps_state:
  "OperateOnNestedPageTables t pa FindOperation b s = Inr (r, s') \<Longrightarrow> s' = s"
  by (auto simp: OperateOnNestedPageTables_def EnsureSubTable_def Let_def split: if_splits)

lemma find_not_fatal:
  "OperateOnNestedPageTables t pa FindOperation b s \<noteq> Inl e"
  by (auto simp: OperateOnNestedPageTables_def EnsureSubTable_def Let_def split: if_splits)

lemma TransitionNptState1To2_result:
  "TransitionNptState1To2 s e = Inr s' \<Longrightarrow>
     ActiveHookEntry (Data s') = Some e \<and> NptState (Data s') = NptHookEnabledVisible"
  by (auto simp: TransitionNptState1To2_def GetNestedPageTableEntry_def Let_def
        split: sum.splits option.splits dest!: find_keeps_state)

lemma TransitionNtpState2To1_result:
  "TransitionNtpState2To1 regs s = Inr s' \<Longrightarrow>
     ActiveHookEntry (Data s') = None \<and> NptState (Data s') = NptHookEnabledInvisible"
  by (auto simp: TransitionNtpState2To1_def GetNestedPageTableEntry_def Let_def
        split: sum.splits option.splits dest!: find_keeps_state)

lemma DisableHooks_result:
  "DisableHooks regs s = Inr s' \<Longrightarrow> hook_invariant s \<Longrightarrow>
     ActiveHookEntry (Data s') = None \<and> NptState (Data s') = NptDefault"
  by (auto simp: DisableHooks_def GetNestedPageTableEntry_def Let_def hook_invariant_def
        split: sum.splits option.splits if_splits dest!: find_keeps_state)

lemma EnableHooks_result:
  "NptState (Data (EnableHooks regs s)) = NptHookEnabledInvisible
   \<and> ActiveHookEntry (Data (EnableHooks regs s)) = ActiveHookEntry (Data s)"
  by (simp add: EnableHooks_def Let_def)

text \<open>
  C1. In every state reached from an initial state (\<open>NptDefault\<close>, no active hook) by
  \<open>EnableHooks\<close>, \<open>DisableHooks\<close>, the transition 1 to 2 and the transition 2 to 1,
  the active hook entry is set if and only if the state is \<open>NptHookEnabledVisible\<close>.
\<close>

theorem reachable_hook_invariant:
  "reachable regs s \<Longrightarrow> hook_invariant s"
proof (induction rule: reachable.induct)
  case (initial s)
  then show ?case by (simp add: hook_invariant_def)
next
  case (enable s)
  then show ?case by (simp add: hook_invariant_def EnableHooks_result)
next
  case (disable s s')
  then show ?case using DisableHooks_result [of regs s s'] by (simp add: hook_invariant_def)
next
  case (to2 s e s')
  then show ?case using TransitionNptState1To2_result [of s e s'] by (simp add: hook_invariant_def)
next
  case (to1 s s')
  then show ?case using TransitionNtpState2To1_result [of regs s s'] by (simp add: hook_invariant_def)
qed

theorem reachable_hook_invariant_witness:
  "hook_invariant (EnableHooks example_hooks example_state)"
  by (rule reachable_hook_invariant [OF reachable.enable [OF reachable.initial]])
     (simp_all add: example_state_def)

section \<open>Permission changes in closed form\<close>

lemmas field_defs = Valid_def Write_def User_def PageFrameNumber_def NoExecute_def
  set_Valid_def set_Write_def set_User_def set_PageFrameNumber_def set_NoExecute_def

lemma nx_fields [simp]:
  "PageFrameNumber (set_NoExecute v e) = PageFrameNumber e"
  "Valid (set_NoExecute v e) = Valid e"
  "Write (set_NoExecute v e) = Write e"
  "User (set_NoExecute v e) = User e"
  "NoExecute (set_NoExecute (of_BOOLEAN b) e) = of_BOOLEAN b"
  "set_NoExecute v (set_NoExecute v' e) = set_NoExecute v e"
  by (simp_all add: field_defs get_set_field_other get_set_field_same set_set_field_same
        take_bit_1_of_BOOLEAN of_BOOLEAN_mod_2)

lemma of_BOOLEAN_simps [simp]:
  "of_BOOLEAN True = 1" "of_BOOLEAN False = 0"
  by (simp_all add: of_BOOLEAN_def)

lemma NoExecute_set_numeral [simp]:
  "NoExecute (set_NoExecute 1 e) = 1" "NoExecute (set_NoExecute 0 e) = 0"
  using nx_fields(5) [of True e] nx_fields(5) [of False e] by simp_all

lemma NoExecute_cases: "NoExecute e = 0 \<or> NoExecute e = 1"
  by (simp add: NoExecute_def get_field_Suc_0)

lemma set_NoExecute_id:
  "NoExecute e = 0 \<Longrightarrow> set_NoExecute 0 e = e"
  "NoExecute e \<noteq> 0 \<Longrightarrow> set_NoExecute 1 e = e"
proof -
  show "NoExecute e = 0 \<Longrightarrow> set_NoExecute 0 e = e"
    using set_get_field_same [of 63 1 e] by (simp add: field_defs)
  show "NoExecute e \<noteq> 0 \<Longrightarrow> set_NoExecute 1 e = e"
    using set_get_field_same [of 63 1 e] NoExecute_cases [of e] by (auto simp add: field_defs)
qed

lemma ForEachEntrySetNoExecute_eq:
  "ForEachEntrySetNoExecute n t v mem =
     (\<lambda>p. if fst p = t \<and> snd p < n then set_NoExecute v (mem p) else mem p)"
proof (induction n)
  case 0
  show ?case by simp
next
  case (Suc n)
  show ?case
    unfolding ForEachEntrySetNoExecute.simps Suc Let_def
    by (rule ext) (auto simp: less_Suc_eq)
qed

lemma index_lt_512:
  "unat (GetPxeIndex pa) < 512" "unat (GetPpeIndex pa) < 512"
  "unat (GetPdeIndex pa) < 512" "unat (GetPteIndex pa) < 512"
proof -
  have *: "unat (x AND (0x1ff :: 64 word)) < 512" for x :: "64 word"
  proof -
    have "x AND 0x1ff \<le> 0x1ff" by (rule word_and_le1)
    then have "unat (x AND 0x1ff) \<le> unat (0x1ff :: 64 word)" by (simp add: word_le_nat_alt)
    then show ?thesis by simp
  qed
  show "unat (GetPxeIndex pa) < 512" "unat (GetPpeIndex pa) < 512"
  "unat (GetPdeIndex pa) < 512" "unat (GetPteIndex pa) < 512"
    by (simp_all add: GetPxeIndex_def GetPpeIndex_def GetPdeIndex_def GetPteIndex_def k_PtxMask_def *)
qed

lemma ChangePermissionOfPage_disallow:
  "ChangePermissionOfPage mem pml4Table pa True =
     mem(pt_entry_ptr mem pml4Table pa := set_NoExecute 1 (mem (pt_entry_ptr mem pml4Table pa)))"
  by (simp add: ChangePermissionOfPage_def Let_def pt_entry_ptr_def pd_entry_ptr_def
        pdpt_entry_ptr_def pml4_entry_ptr_def)

lemma ChangePermissionOfPage_allow_plain:
  assumes "NoExecute (mem (pdpt_entry_ptr mem pml4Table pa)) = 0"
    and "NoExecute (mem (pd_entry_ptr mem pml4Table pa)) = 0"
  shows "ChangePermissionOfPage mem pml4Table pa False =
     mem(pt_entry_ptr mem pml4Table pa := set_NoExecute 0 (mem (pt_entry_ptr mem pml4Table pa)))"
  using assms
  by (simp add: ChangePermissionOfPage_def Let_def pt_entry_ptr_def pd_entry_ptr_def
        pdpt_entry_ptr_def pml4_entry_ptr_def)

lemma ChangePermissionOfPage_allow_staged:
  assumes d: "distinct [fst (pdpt_entry_ptr mem t pa), fst (pd_entry_ptr mem t pa),
                        fst (pt_entry_ptr mem t pa)]"
  shows "\<exists>m1 m2.
       m1 = (if NoExecute (mem (pdpt_entry_ptr mem t pa)) \<noteq> 0
             then (\<lambda>p. if p = pdpt_entry_ptr mem t pa then set_NoExecute 0 (mem p)
                       else if in_table (fst (pd_entry_ptr mem t pa)) p then set_NoExecute 1 (mem p)
                       else mem p)
             else mem)
     \<and> m2 = (if NoExecute (m1 (pd_entry_ptr mem t pa)) \<noteq> 0
             then (\<lambda>p. if p = pd_entry_ptr mem t pa then set_NoExecute 0 (m1 p)
                       else if in_table (fst (pt_entry_ptr mem t pa)) p then set_NoExecute 1 (m1 p)
                       else m1 p)
             else m1)
     \<and> ChangePermissionOfPage mem t pa False =
         m2(pt_entry_ptr mem t pa := set_NoExecute 0 (m2 (pt_entry_ptr mem t pa)))"
proof -
  define i3 where "i3 = unat (GetPpeIndex pa)"
  define i2 where "i2 = unat (GetPdeIndex pa)"
  define i1 where "i1 = unat (GetPteIndex pa)"
  define T3 where "T3 = PageFrameNumber (mem (t, unat (GetPxeIndex pa)))"
  define T2 where "T2 = PageFrameNumber (mem (T3, i3))"
  define T1 where "T1 = PageFrameNumber (mem (T2, i2))"
  have P3: "pdpt_entry_ptr mem t pa = (T3, i3)"
    by (simp add: pdpt_entry_ptr_def pml4_entry_ptr_def T3_def i3_def)
  have P2: "pd_entry_ptr mem t pa = (T2, i2)"
    by (simp add: pd_entry_ptr_def P3 T2_def i2_def)
  have P1: "pt_entry_ptr mem t pa = (T1, i1)"
    by (simp add: pt_entry_ptr_def P2 T1_def i1_def)
  have dist: "T3 \<noteq> T2" "T3 \<noteq> T1" "T2 \<noteq> T1"
    using d by (simp_all add: P3 P2 P1)
  have lt: "i2 < 512" "i1 < 512"
    by (simp_all add: i2_def i1_def index_lt_512)
  define m1 where "m1 = (if NoExecute (mem (T3, i3)) \<noteq> 0
                  then (\<lambda>p. if fst p = T2 \<and> snd p < 512
                            then set_NoExecute 1 ((mem((T3, i3) := set_NoExecute 0 (mem (T3, i3)))) p)
                            else (mem((T3, i3) := set_NoExecute 0 (mem (T3, i3)))) p)
                  else mem)"
  have unfolded: "ChangePermissionOfPage mem t pa False =
     (let T1' = PageFrameNumber (m1 (T2, i2));
          mem2 = (if NoExecute (m1 (T2, i2)) \<noteq> 0
                  then (\<lambda>p. if fst p = T1' \<and> snd p < 512
                            then set_NoExecute 1 ((m1((T2, i2) := set_NoExecute 0 (m1 (T2, i2)))) p)
                            else (m1((T2, i2) := set_NoExecute 0 (m1 (T2, i2)))) p)
                  else m1)
      in mem2((T1', i1) := set_NoExecute 0 (mem2 (T1', i1))))"
    unfolding ChangePermissionOfPage_def ForEachEntrySetNoExecute_eq m1_def T1_def T2_def T3_def
      i3_def i2_def i1_def
    by (simp only: Let_def of_BOOLEAN_simps simp_thms if_True if_False)
  have T1': "PageFrameNumber (m1 (T2, i2)) = T1"
    using dist lt by (simp add: T1_def m1_def)
  have m1_eq: "m1 = (if NoExecute (mem (T3, i3)) \<noteq> 0
             then (\<lambda>p. if p = (T3, i3) then set_NoExecute 0 (mem p)
                       else if in_table T2 p then set_NoExecute 1 (mem p)
                       else mem p)
             else mem)"
    unfolding m1_def using dist by (auto simp: in_table_def fun_eq_iff)
  have res: "ChangePermissionOfPage mem t pa False =
      (if NoExecute (m1 (T2, i2)) \<noteq> 0
             then (\<lambda>p. if p = (T2, i2) then set_NoExecute 0 (m1 p)
                       else if in_table T1 p then set_NoExecute 1 (m1 p)
                       else m1 p)
             else m1)
        ((T1, i1) := set_NoExecute 0 ((if NoExecute (m1 (T2, i2)) \<noteq> 0
             then (\<lambda>p. if p = (T2, i2) then set_NoExecute 0 (m1 p)
                       else if in_table T1 p then set_NoExecute 1 (m1 p)
                       else m1 p)
             else m1) (T1, i1)))"
    unfolding unfolded Let_def T1' using dist lt
    by (auto simp: in_table_def fun_eq_iff)
  show ?thesis
    unfolding P3 P2 P1 fst_conv
    using m1_eq res by blast
qed

lemma ChangePermissionOfPage_allow:
  assumes d: "distinct [fst (pdpt_entry_ptr mem t pa), fst (pd_entry_ptr mem t pa),
                        fst (pt_entry_ptr mem t pa)]"
  shows "ChangePermissionOfPage mem t pa False =
     (\<lambda>p. if p = pt_entry_ptr mem t pa then set_NoExecute 0 (mem p)
          else if in_table (fst (pt_entry_ptr mem t pa)) p then
            (if NoExecute (mem (pdpt_entry_ptr mem t pa)) \<noteq> 0
                \<or> NoExecute (mem (pd_entry_ptr mem t pa)) \<noteq> 0
             then set_NoExecute 1 (mem p) else mem p)
          else if p = pd_entry_ptr mem t pa then set_NoExecute 0 (mem p)
          else if in_table (fst (pd_entry_ptr mem t pa)) p then
            (if NoExecute (mem (pdpt_entry_ptr mem t pa)) \<noteq> 0
             then set_NoExecute 1 (mem p) else mem p)
          else if p = pdpt_entry_ptr mem t pa then set_NoExecute 0 (mem p)
          else mem p)"
proof -
  obtain T3 i3 where P3: "pdpt_entry_ptr mem t pa = (T3, i3)" by (cases "pdpt_entry_ptr mem t pa")
  obtain T2 i2 where P2: "pd_entry_ptr mem t pa = (T2, i2)" by (cases "pd_entry_ptr mem t pa")
  obtain T1 i1 where P1: "pt_entry_ptr mem t pa = (T1, i1)" by (cases "pt_entry_ptr mem t pa")
  have dist: "T3 \<noteq> T2" "T3 \<noteq> T1" "T2 \<noteq> T1"
    using d by (simp_all add: P3 P2 P1)
  have lt: "i2 < 512" "i1 < 512"
    using P2 P1 by (auto simp: pd_entry_ptr_def pt_entry_ptr_def index_lt_512)
  from ChangePermissionOfPage_allow_staged [OF d]
  show ?thesis
    unfolding P3 P2 P1 fst_conv using dist lt
    by (auto simp: in_table_def fun_eq_iff set_NoExecute_id)
qed

section \<open>Walks are stable under permission changes\<close>

lemma nx_only_refl [simp]: "nx_only m m"
  by (simp add: nx_only_def)

lemma nx_only_trans: "nx_only m m' \<Longrightarrow> nx_only m' m'' \<Longrightarrow> nx_only m m''"
  by (simp add: nx_only_def)

lemma nx_only_fields:
  assumes "nx_only m m'"
  shows "PageFrameNumber (m' p) = PageFrameNumber (m p)" "Valid (m' p) = Valid (m p)"
proof -
  have e: "set_NoExecute 0 (m' p) = set_NoExecute 0 (m p)"
    using assms by (simp add: nx_only_def del: split_paired_All)
  have "PageFrameNumber (set_NoExecute 0 (m' p)) = PageFrameNumber (set_NoExecute 0 (m p))"
    by (simp only: e)
  then show "PageFrameNumber (m' p) = PageFrameNumber (m p)" by simp
  have "Valid (set_NoExecute 0 (m' p)) = Valid (set_NoExecute 0 (m p))"
    by (simp only: e)
  then show "Valid (m' p) = Valid (m p)" by simp
qed

lemma nx_only_ptrs:
  assumes "nx_only m m'"
  shows "pdpt_entry_ptr m' t pa = pdpt_entry_ptr m t pa"
    and "pd_entry_ptr m' t pa = pd_entry_ptr m t pa"
    and "pt_entry_ptr m' t pa = pt_entry_ptr m t pa"
    and "walk_valid m' t pa = walk_valid m t pa"
proof -
  show 1: "pdpt_entry_ptr m' t pa = pdpt_entry_ptr m t pa"
    by (simp add: pdpt_entry_ptr_def nx_only_fields [OF assms])
  show 2: "pd_entry_ptr m' t pa = pd_entry_ptr m t pa"
    by (simp add: pd_entry_ptr_def 1 nx_only_fields [OF assms])
  show 3: "pt_entry_ptr m' t pa = pt_entry_ptr m t pa"
    by (simp add: pt_entry_ptr_def 2 nx_only_fields [OF assms])
  show "walk_valid m' t pa = walk_valid m t pa"
    by (simp add: walk_valid_def 1 2 nx_only_fields [OF assms])
qed

lemma nx_only_upd: "nx_only m (m(p := set_NoExecute v (m p)))"
  by (simp add: nx_only_def)

lemma nx_only_upd': "nx_only m m' \<Longrightarrow> nx_only m (m'(p := set_NoExecute v (m' p)))"
  by (simp add: nx_only_def del: split_paired_All)

lemma nx_only_if: "nx_only m a \<Longrightarrow> nx_only m b \<Longrightarrow> nx_only m (if c then a else b)"
  by simp

lemma nx_only_loop: "nx_only m m' \<Longrightarrow> nx_only m (ForEachEntrySetNoExecute n t v m')"
  by (simp add: nx_only_def ForEachEntrySetNoExecute_eq del: split_paired_All)

lemma nx_only_ChangePermissionOfPage:
  "nx_only m m' \<Longrightarrow> nx_only m (ChangePermissionOfPage m' t pa b)"
  unfolding ChangePermissionOfPage_def Let_def
  by (intro nx_only_upd' nx_only_loop nx_only_if)

section \<open>The concrete tables\<close>

lemma example_ptrs:
  "pdpt_entry_ptr example_nx_npt 1 0x5000 = (2, 0)"
  "pd_entry_ptr example_nx_npt 1 0x5000 = (3, 0)"
  "pt_entry_ptr example_nx_npt 1 0x5000 = (4, 5)"
  "pdpt_entry_ptr example_npt 1 0x5000 = (2, 0)"
  "pd_entry_ptr example_npt 1 0x5000 = (3, 0)"
  "pt_entry_ptr example_npt 1 0x5000 = (4, 5)"
  "pdpt_entry_ptr example_npt 1 0x6000 = (2, 0)"
  "pd_entry_ptr example_npt 1 0x6000 = (3, 0)"
  "pt_entry_ptr example_npt 1 0x6000 = (4, 6)"
  by (simp_all add: pt_entry_ptr_def pd_entry_ptr_def pdpt_entry_ptr_def pml4_entry_ptr_def
        example_nx_npt_def example_npt_def GetPxeIndex_def GetPpeIndex_def GetPdeIndex_def
        GetPteIndex_def k_PxiShift_def k_PpiShift_def k_PdiShift_def k_PtiShift_def k_PtxMask_def
        PageFrameNumber_def get_field_def)

lemma nx_vals:
  "set_NoExecute 1 0x5007 = 0x8000000000005007"
  "set_NoExecute 0 0x8000000000003007 = 0x3007"
  "set_NoExecute 0 0x5007 = 0x5007"
  "set_NoExecute 0 0x4007 = 0x4007"
  "set_NoExecute 1 0x6007 = 0x8000000000006007"
  "set_NoExecute 1 0 = 0x8000000000000000"
  "NoExecute 0x8000000000003007 = 1"
  "NoExecute 0x4007 = 0"
  "set_NoExecute 0 0x6007 = 0x6007"
  by (simp_all add: set_NoExecute_def set_field_def NoExecute_def get_field_def mask_eq_exp_minus_1)

section \<open>Changing the permission of one page\<close>

lemma set_NoExecute_bit:
  "set_NoExecute 1 e = set_bit 63 e" "set_NoExecute 0 e = unset_bit 63 e"
  using set_field_1 [of 63 True e] set_field_1 [of 63 False e]
  by (simp_all add: set_NoExecute_def)

text \<open>
  C4. \<open>ChangePermissionOfPage\<close> on tables whose PDPT, PD and PT for the address are three
  different pages. Asked to make the page non-executable, it writes the no-execute field
  of the leaf and nothing else. Asked to make it executable: if the PDPT entry has the
  bit set, the entry is cleared and all 512 entries of the PD get the bit (memory
  \<open>m1\<close>); then, if the PD entry has the bit in \<open>m1\<close>, it is cleared and all 512 entries
  of the PT get the bit (memory \<open>m2\<close>); only then the leaf's bit is cleared. The last
  conjunct is the resulting memory in one formula. Every write changes bit 63 only
  (\<open>set_NoExecute_bit\<close>).
\<close>

theorem ChangePermissionOfPage_sibling_mask:
  assumes "distinct [fst (pdpt_entry_ptr mem t pa), fst (pd_entry_ptr mem t pa),
                     fst (pt_entry_ptr mem t pa)]"
  shows "ChangePermissionOfPage mem t pa True =
           mem(pt_entry_ptr mem t pa := set_NoExecute 1 (mem (pt_entry_ptr mem t pa)))
    \<and> (\<exists>m1 m2.
         m1 = (if NoExecute (mem (pdpt_entry_ptr mem t pa)) \<noteq> 0
               then (\<lambda>p. if p = pdpt_entry_ptr mem t pa then set_NoExecute 0 (mem p)
                         else if in_table (fst (pd_entry_ptr mem t pa)) p
                         then set_NoExecute 1 (mem p)
                         else mem p)
               else mem)
       \<and> m2 = (if NoExecute (m1 (pd_entry_ptr mem t pa)) \<noteq> 0
               then (\<lambda>p. if p = pd_entry_ptr mem t pa then set_NoExecute 0 (m1 p)
                         else if in_table (fst (pt_entry_ptr mem t pa)) p
                         then set_NoExecute 1 (m1 p)
                         else m1 p)
               else m1)
       \<and> ChangePermissionOfPage mem t pa False =
           m2(pt_entry_ptr mem t pa := set_NoExecute 0 (m2 (pt_entry_ptr mem t pa))))
    \<and> ChangePermissionOfPage mem t pa False =
        (\<lambda>p. if p = pt_entry_ptr mem t pa then set_NoExecute 0 (mem p)
             else if in_table (fst (pt_entry_ptr mem t pa)) p then
               (if NoExecute (mem (pdpt_entry_ptr mem t pa)) \<noteq> 0
                   \<or> NoExecute (mem (pd_entry_ptr mem t pa)) \<noteq> 0
                then set_NoExecute 1 (mem p) else mem p)
             else if p = pd_entry_ptr mem t pa then set_NoExecute 0 (mem p)
             else if in_table (fst (pd_entry_ptr mem t pa)) p then
               (if NoExecute (mem (pdpt_entry_ptr mem t pa)) \<noteq> 0
                then set_NoExecute 1 (mem p) else mem p)
             else if p = pdpt_entry_ptr mem t pa then set_NoExecute 0 (mem p)
             else mem p)"
  using ChangePermissionOfPage_disallow [of mem t pa]
    ChangePermissionOfPage_allow_staged [OF assms] ChangePermissionOfPage_allow [OF assms]
  by (intro conjI) assumption+

theorem ChangePermissionOfPage_sibling_mask_witness:
  "ChangePermissionOfPage example_npt 1 0x5000 True = example_npt((4, 5) := 0x8000000000005007)
   \<and> ChangePermissionOfPage example_nx_npt 1 0x5000 False (2, 0) = 0x3007
   \<and> ChangePermissionOfPage example_nx_npt 1 0x5000 False (3, 0) = 0x4007
   \<and> ChangePermissionOfPage example_nx_npt 1 0x5000 False (3, 1) = 0x8000000000000000
   \<and> ChangePermissionOfPage example_nx_npt 1 0x5000 False (4, 5) = 0x5007
   \<and> ChangePermissionOfPage example_nx_npt 1 0x5000 False (4, 6) = 0x8000000000006007
   \<and> ChangePermissionOfPage example_nx_npt 1 0x5000 False (1, 0) = 0x2007"
proof -
  have d1: "distinct [fst (pdpt_entry_ptr example_npt 1 0x5000),
                      fst (pd_entry_ptr example_npt 1 0x5000),
                      fst (pt_entry_ptr example_npt 1 0x5000)]"
    by (simp add: example_ptrs)
  have d2: "distinct [fst (pdpt_entry_ptr example_nx_npt 1 0x5000),
                      fst (pd_entry_ptr example_nx_npt 1 0x5000),
                      fst (pt_entry_ptr example_nx_npt 1 0x5000)]"
    by (simp add: example_ptrs)
  have a: "ChangePermissionOfPage example_npt 1 0x5000 True =
             example_npt((4, 5) := 0x8000000000005007)"
    using ChangePermissionOfPage_sibling_mask [OF d1, THEN conjunct1]
    unfolding example_ptrs by (simp add: example_npt_def nx_vals)
  have b: "ChangePermissionOfPage example_nx_npt 1 0x5000 False =
        (\<lambda>p. if p = (4, 5) then set_NoExecute 0 (example_nx_npt p)
             else if in_table 4 p then set_NoExecute 1 (example_nx_npt p)
             else if p = (3, 0) then set_NoExecute 0 (example_nx_npt p)
             else if in_table 3 p then set_NoExecute 1 (example_nx_npt p)
             else if p = (2, 0) then set_NoExecute 0 (example_nx_npt p)
             else example_nx_npt p)"
  proof -
    have nx: "NoExecute (example_nx_npt (2, 0)) \<noteq> 0"
      by (simp add: example_nx_npt_def nx_vals)
    show ?thesis
      using ChangePermissionOfPage_sibling_mask [OF d2, THEN conjunct2, THEN conjunct2]
      unfolding example_ptrs fst_conv by (simp add: nx cong: if_cong)
  qed
  show ?thesis
    unfolding b
    by (intro conjI, rule a)
       (simp_all add: in_table_def example_nx_npt_def example_npt_def nx_vals)
qed

section \<open>Enabling and disabling the hooks\<close>

lemma ChangePermissionOfHookPages_disallow:
  "nx_only mem m \<Longrightarrow>
   ChangePermissionOfHookPages regs t True m =
     (\<lambda>p. if p \<in> hook_leaves mem t regs then set_NoExecute 1 (m p) else m p)"
proof (induction regs arbitrary: m)
  case Nil
  show ?case by (simp add: hook_leaves_def)
next
  case (Cons r regs)
  let ?pa = "PhyPageBase (HookEntry r)"
  let ?P = "pt_entry_ptr mem t ?pa"
  have step: "ChangePermissionOfPage m t ?pa True = m(?P := set_NoExecute 1 (m ?P))"
    by (simp add: ChangePermissionOfPage_disallow nx_only_ptrs [OF Cons.prems])
  have nx: "nx_only mem (m(?P := set_NoExecute 1 (m ?P)))"
    by (rule nx_only_upd' [OF Cons.prems])
  show ?case
    unfolding ChangePermissionOfHookPages.simps step Cons.IH [OF nx]
    by (rule ext) (auto simp: hook_leaves_def)
qed

lemma ChangePermissionOfHookPages_allow:
  assumes "nx_only mem m"
    and "\<forall>r \<in> set regs.
           NoExecute (m (pdpt_entry_ptr mem t (PhyPageBase (HookEntry r)))) = 0
           \<and> NoExecute (m (pd_entry_ptr mem t (PhyPageBase (HookEntry r)))) = 0"
    and "\<forall>r \<in> set regs. \<forall>r' \<in> set regs.
           pt_entry_ptr mem t (PhyPageBase (HookEntry r)) \<noteq>
             pdpt_entry_ptr mem t (PhyPageBase (HookEntry r'))
           \<and> pt_entry_ptr mem t (PhyPageBase (HookEntry r)) \<noteq>
             pd_entry_ptr mem t (PhyPageBase (HookEntry r'))"
  shows "ChangePermissionOfHookPages regs t False m =
     (\<lambda>p. if p \<in> hook_leaves mem t regs then set_NoExecute 0 (m p) else m p)"
  using assms
proof (induction regs arbitrary: m)
  case Nil
  show ?case by (simp add: hook_leaves_def)
next
  case (Cons r regs)
  let ?pa = "PhyPageBase (HookEntry r)"
  let ?P = "pt_entry_ptr mem t ?pa"
  have step: "ChangePermissionOfPage m t ?pa False = m(?P := set_NoExecute 0 (m ?P))"
    using Cons.prems(2)
    by (simp add: ChangePermissionOfPage_allow_plain nx_only_ptrs [OF Cons.prems(1)])
  have nx: "nx_only mem (m(?P := set_NoExecute 0 (m ?P)))"
    by (rule nx_only_upd' [OF Cons.prems(1)])
  have h2: "\<forall>r' \<in> set regs.
           NoExecute ((m(?P := set_NoExecute 0 (m ?P))) (pdpt_entry_ptr mem t (PhyPageBase (HookEntry r')))) = 0
           \<and> NoExecute ((m(?P := set_NoExecute 0 (m ?P))) (pd_entry_ptr mem t (PhyPageBase (HookEntry r')))) = 0"
    using Cons.prems(2,3) by auto
  have h3: "\<forall>r \<in> set regs. \<forall>r' \<in> set regs.
           pt_entry_ptr mem t (PhyPageBase (HookEntry r)) \<noteq>
             pdpt_entry_ptr mem t (PhyPageBase (HookEntry r'))
           \<and> pt_entry_ptr mem t (PhyPageBase (HookEntry r)) \<noteq>
             pd_entry_ptr mem t (PhyPageBase (HookEntry r'))"
    using Cons.prems(3) by auto
  show ?case
    unfolding ChangePermissionOfHookPages.simps step Cons.IH [OF nx h2 h3]
    by (rule ext) (auto simp: hook_leaves_def)
qed

lemma set_clear_NoExecute: "NoExecute e = 0 \<Longrightarrow> set_NoExecute 0 (set_NoExecute 1 e) = e"
  by (simp add: set_NoExecute_id)

lemma hook_tables_apart_ptrs:
  assumes "hook_tables_apart mem t regs" "r \<in> set regs" "r' \<in> set regs"
  shows "pt_entry_ptr mem t (PhyPageBase (HookEntry r)) \<noteq>
             pdpt_entry_ptr mem t (PhyPageBase (HookEntry r'))"
    and "pt_entry_ptr mem t (PhyPageBase (HookEntry r)) \<noteq>
             pd_entry_ptr mem t (PhyPageBase (HookEntry r'))"
proof -
  from assms have "fst (pt_entry_ptr mem t (PhyPageBase (HookEntry r))) \<noteq>
          fst (pdpt_entry_ptr mem t (PhyPageBase (HookEntry r')))"
     "fst (pt_entry_ptr mem t (PhyPageBase (HookEntry r))) \<noteq>
          fst (pd_entry_ptr mem t (PhyPageBase (HookEntry r')))"
    unfolding hook_tables_apart_def by blast+
  then show "pt_entry_ptr mem t (PhyPageBase (HookEntry r)) \<noteq>
             pdpt_entry_ptr mem t (PhyPageBase (HookEntry r'))"
    and "pt_entry_ptr mem t (PhyPageBase (HookEntry r)) \<noteq>
             pd_entry_ptr mem t (PhyPageBase (HookEntry r'))"
    by auto
qed

lemma hook_interior_not_leaf:
  assumes "hook_tables_apart mem t regs" "r \<in> set regs"
  shows "pdpt_entry_ptr mem t (PhyPageBase (HookEntry r)) \<notin> hook_leaves mem t regs"
    and "pd_entry_ptr mem t (PhyPageBase (HookEntry r)) \<notin> hook_leaves mem t regs"
proof -
  show "pdpt_entry_ptr mem t (PhyPageBase (HookEntry r)) \<notin> hook_leaves mem t regs"
  proof
    assume "pdpt_entry_ptr mem t (PhyPageBase (HookEntry r)) \<in> hook_leaves mem t regs"
    then obtain x where x: "x \<in> set regs"
      "pdpt_entry_ptr mem t (PhyPageBase (HookEntry r)) =
         pt_entry_ptr mem t (PhyPageBase (HookEntry x))"
      unfolding hook_leaves_def by (rule imageE)
    from hook_tables_apart_ptrs(1) [OF assms(1) x(1) assms(2)] x(2) show False by simp
  qed
  show "pd_entry_ptr mem t (PhyPageBase (HookEntry r)) \<notin> hook_leaves mem t regs"
  proof
    assume "pd_entry_ptr mem t (PhyPageBase (HookEntry r)) \<in> hook_leaves mem t regs"
    then obtain x where x: "x \<in> set regs"
      "pd_entry_ptr mem t (PhyPageBase (HookEntry r)) =
         pt_entry_ptr mem t (PhyPageBase (HookEntry x))"
      unfolding hook_leaves_def by (rule imageE)
    from hook_tables_apart_ptrs(2) [OF assms(1) x(1) assms(2)] x(2) show False by simp
  qed
qed

lemma EnableHooks_memory:
  "EnableHooks regs s =
     s\<lparr>Npt := (\<lambda>p. if p \<in> hook_leaves (Npt s) (Pml4Table (Data s)) regs
                   then set_NoExecute 1 (Npt s p) else Npt s p),
       Data := (Data s)\<lparr>NptState := NptHookEnabledInvisible\<rparr>\<rparr>"
proof -
  have "ChangePermissionOfHookPages regs (Pml4Table (Data s)) True (Npt s) =
      (\<lambda>p. if p \<in> hook_leaves (Npt s) (Pml4Table (Data s)) regs
                   then set_NoExecute 1 (Npt s p) else Npt s p)"
    by (rule ChangePermissionOfHookPages_disallow) simp
  then show ?thesis by (simp add: EnableHooks_def Let_def)
qed

lemma rearm_then_disarm:
  assumes ex: "hook_walks_executable mem t regs"
    and ap: "hook_tables_apart mem t regs"
  shows "ChangePermissionOfHookPages regs t False
           (\<lambda>p. if p \<in> hook_leaves mem t regs then set_NoExecute 1 (mem p) else mem p) = mem"
proof -
  let ?L = "hook_leaves mem t regs"
  let ?m1 = "\<lambda>p. if p \<in> ?L then set_NoExecute 1 (mem p) else mem p"
  have nx1: "nx_only mem ?m1"
    by (simp add: nx_only_def)
  have h2: "\<forall>r \<in> set regs.
           NoExecute (?m1 (pdpt_entry_ptr mem t (PhyPageBase (HookEntry r)))) = 0
           \<and> NoExecute (?m1 (pd_entry_ptr mem t (PhyPageBase (HookEntry r)))) = 0"
    using ex hook_interior_not_leaf [OF ap] by (simp add: hook_walks_executable_def)
  have h3: "\<forall>r \<in> set regs. \<forall>r' \<in> set regs.
           pt_entry_ptr mem t (PhyPageBase (HookEntry r)) \<noteq>
             pdpt_entry_ptr mem t (PhyPageBase (HookEntry r'))
           \<and> pt_entry_ptr mem t (PhyPageBase (HookEntry r)) \<noteq>
             pd_entry_ptr mem t (PhyPageBase (HookEntry r'))"
    using hook_tables_apart_ptrs [OF ap] by blast
  have leaf0: "NoExecute (mem p) = 0" if "p \<in> ?L" for p
    using ex that by (auto simp: hook_walks_executable_def hook_leaves_def)
  show ?thesis
    unfolding ChangePermissionOfHookPages_allow [OF nx1 h2 h3]
    by (rule ext) (simp add: set_NoExecute_id leaf0)
qed


text \<open>
  C3. From \<open>NptDefault\<close> with no active hook, on tables as they are after initialization
  (see \<open>hook_walks_executable\<close> and \<open>hook_tables_apart\<close>): \<open>EnableHooks\<close> sets the
  no-execute bit of the leaves of the hook pages and moves to \<open>NptHookEnabledInvisible\<close>;
  \<open>DisableHooks\<close> after it returns, and the state it returns is the state before
  \<open>EnableHooks\<close>: the same 64-bit value in every entry of every table, \<open>NptDefault\<close>,
  no active hook.
\<close>

theorem EnableHooks_DisableHooks_round_trip:
  assumes "NptState (Data s) = NptDefault" and "ActiveHookEntry (Data s) = None"
    and "hook_walks_executable (Npt s) (Pml4Table (Data s)) regs"
    and "hook_tables_apart (Npt s) (Pml4Table (Data s)) regs"
  shows "DisableHooks regs (EnableHooks regs s) = Inr s
    \<and> (\<exists>s'. DisableHooks regs (EnableHooks regs s) = Inr s'
           \<and> Npt s' = Npt s
           \<and> NptState (Data s') = NptDefault \<and> ActiveHookEntry (Data s') = None)
    \<and> NptState (Data (EnableHooks regs s)) = NptHookEnabledInvisible
    \<and> Npt (EnableHooks regs s) =
         (\<lambda>p. if p \<in> hook_leaves (Npt s) (Pml4Table (Data s)) regs
              then set_NoExecute 1 (Npt s p) else Npt s p)"
proof -
  have d: "DisableHooks regs (EnableHooks regs s) = Inr s"
    using assms(1)
    by (simp add: EnableHooks_memory DisableHooks_def Let_def rearm_then_disarm [OF assms(3,4)])
  have e: "NptState (Data (EnableHooks regs s)) = NptHookEnabledInvisible"
     "Npt (EnableHooks regs s) =
         (\<lambda>p. if p \<in> hook_leaves (Npt s) (Pml4Table (Data s)) regs
              then set_NoExecute 1 (Npt s p) else Npt s p)"
    by (simp_all add: EnableHooks_memory)
  show ?thesis
    using d assms(1,2) e by blast
qed

lemma example_hook_conditions:
  "hook_walks_executable example_npt 1 example_hooks"
  "hook_tables_apart example_npt 1 example_hooks"
  "hook_leaves example_npt 1 example_hooks = {(4, 5), (4, 6)}"
  unfolding hook_walks_executable_def hook_tables_apart_def hook_leaves_def
  by (simp_all add: example_hooks_def example_ptrs)
     (simp_all add: example_npt_def NoExecute_def get_field_def)

theorem EnableHooks_DisableHooks_round_trip_witness:
  "DisableHooks example_hooks (EnableHooks example_hooks example_state) = Inr example_state
   \<and> NptState (Data (EnableHooks example_hooks example_state)) = NptHookEnabledInvisible
   \<and> Npt (EnableHooks example_hooks example_state) (4, 5) = 0x8000000000005007
   \<and> Npt (EnableHooks example_hooks example_state) (4, 6) = 0x8000000000006007
   \<and> Npt (EnableHooks example_hooks example_state) (4, 7) = 0x7007"
proof -
  have s: "NptState (Data example_state) = NptDefault"
    "ActiveHookEntry (Data example_state) = None"
    "hook_walks_executable (Npt example_state) (Pml4Table (Data example_state)) example_hooks"
    "hook_tables_apart (Npt example_state) (Pml4Table (Data example_state)) example_hooks"
    "hook_leaves (Npt example_state) (Pml4Table (Data example_state)) example_hooks =
       {(4, 5), (4, 6)}"
    by (simp_all add: example_state_def example_hook_conditions)
  from EnableHooks_DisableHooks_round_trip [OF s(1-4)]
  show ?thesis
    unfolding s(5)
    by (simp add: example_state_def) (simp add: example_npt_def nx_vals)
qed
section \<open>Walks and writes off the walk\<close>


lemma nx_only_ChangePermissionOfHookPages:
  "nx_only m m' \<Longrightarrow> nx_only m (ChangePermissionOfHookPages regs t b m')"
  by (induction regs arbitrary: m') (simp_all add: nx_only_ChangePermissionOfPage)

text \<open>A write of the page frame number of an entry off the walk leaves the walk as it is.\<close>

lemma pfn_write_ptrs:
  assumes "q \<noteq> pml4_entry_ptr t pa" "q \<noteq> pdpt_entry_ptr m t pa" "q \<noteq> pd_entry_ptr m t pa"
  shows "pdpt_entry_ptr (m(q := v)) t pa = pdpt_entry_ptr m t pa"
    and "pd_entry_ptr (m(q := v)) t pa = pd_entry_ptr m t pa"
    and "pt_entry_ptr (m(q := v)) t pa = pt_entry_ptr m t pa"
    and "walk_valid (m(q := v)) t pa = walk_valid m t pa"
proof -
  show 1: "pdpt_entry_ptr (m(q := v)) t pa = pdpt_entry_ptr m t pa"
    using assms by (simp add: pdpt_entry_ptr_def)
  show 2: "pd_entry_ptr (m(q := v)) t pa = pd_entry_ptr m t pa"
    using assms by (simp add: pd_entry_ptr_def 1)
  show 3: "pt_entry_ptr (m(q := v)) t pa = pt_entry_ptr m t pa"
    using assms by (simp add: pt_entry_ptr_def 2)
  show "walk_valid (m(q := v)) t pa = walk_valid m t pa"
    using assms by (simp add: walk_valid_def 1 2)
qed

lemma pfn_fields [simp]:
  "PageFrameNumber (set_PageFrameNumber v e) = take_bit 40 v"
  "NoExecute (set_PageFrameNumber v e) = NoExecute e"
  "Valid (set_PageFrameNumber v e) = Valid e"
  by (simp_all add: field_defs get_set_field_other get_set_field_same)


lemma ChangePermissionOfPage_leaf_executable:
  "NoExecute (ChangePermissionOfPage m t pa False (pt_entry_ptr m t pa)) = 0"
  by (simp add: ChangePermissionOfPage_def Let_def pt_entry_ptr_def pd_entry_ptr_def
        pdpt_entry_ptr_def pml4_entry_ptr_def ForEachEntrySetNoExecute_eq)

lemma off_walk_ptrs:
  assumes "q \<notin> interior_entries m t pa"
  shows "pdpt_entry_ptr (m(q := v)) t pa = pdpt_entry_ptr m t pa"
    and "pd_entry_ptr (m(q := v)) t pa = pd_entry_ptr m t pa"
    and "pt_entry_ptr (m(q := v)) t pa = pt_entry_ptr m t pa"
    and "walk_valid (m(q := v)) t pa = walk_valid m t pa"
  using assms pfn_write_ptrs [of q t pa m v] by (simp_all add: interior_entries_def)


section \<open>The transitions of the state machine\<close>


















section \<open>A nested page fault on a page that is not mapped\<close>

lemma InitializeEntry_fields [simp]:
  "Valid (InitializeEntry f e) = 1" "Write (InitializeEntry f e) = 1"
  "User (InitializeEntry f e) = 1" "PageFrameNumber (InitializeEntry f e) = take_bit 40 f"
  "NoExecute (InitializeEntry f e) = NoExecute e"
  by (simp_all add: InitializeEntry_def field_defs get_set_field_other get_set_field_same
        of_BOOLEAN_def)

lemma Valid_zero [simp]: "Valid 0 = 0"
  by (simp add: Valid_def get_field_def)

lemma OperateOnNestedPageTables_build_chain:
  assumes "EnsureSubTable (t, unat (GetPxeIndex pa)) BuildOperation b s = Inr (True, s1)"
    and "E3 = (PageFrameNumber (Npt s1 (t, unat (GetPxeIndex pa))), unat (GetPpeIndex pa))"
    and "EnsureSubTable E3 BuildOperation b s1 = Inr (True, s2)"
    and "E2 = (PageFrameNumber (Npt s2 E3), unat (GetPdeIndex pa))"
    and "EnsureSubTable E2 BuildOperation b s2 = Inr (True, s3)"
    and "L = (PageFrameNumber (Npt s3 E2), unat (GetPteIndex pa))"
    and "BuildNestedPageTableEntry L pa b s3 = Inr (ok, s4)"
  shows "OperateOnNestedPageTables t pa BuildOperation b s = Inr (Some L, s4)"
  using assms by (simp add: OperateOnNestedPageTables_def Let_def)

lemma AllocateNptEntry_from_pool:
  assumes "unat (UsedPreAllocatedEntriesCount (Data s)) < 50"
    and "length (PreAllocatedNptEntries (Data s)) = 50"
  shows "AllocateNptEntry True s =
     Inr (Some (PreAllocatedNptEntries (Data s) ! unat (UsedPreAllocatedEntriesCount (Data s))),
          s\<lparr>Data := (Data s)\<lparr>UsedPreAllocatedEntriesCount :=
                                  UsedPreAllocatedEntriesCount (Data s) + 1\<rparr>\<rparr>)"
proof -
  have "unat (UsedPreAllocatedEntriesCount (Data s) + 1) =
          unat (UsedPreAllocatedEntriesCount (Data s)) + 1"
    using assms(1) by (simp add: unat_word_ariths)
  then show ?thesis
    using assms by (simp add: AllocateNptEntry_def Let_def)
qed

lemma EnsureSubTable_present:
  "Valid (Npt s E) \<noteq> 0 \<Longrightarrow> EnsureSubTable E op b s = Inr (True, s)"
  by (simp add: EnsureSubTable_def)

lemma EnsureSubTable_from_pool:
  assumes "Valid (Npt s E) = 0"
    and "unat (UsedPreAllocatedEntriesCount (Data s)) < 50"
    and "length (PreAllocatedNptEntries (Data s)) = 50"
  shows "EnsureSubTable E BuildOperation True s =
     Inr (True,
          s\<lparr>Npt := (Npt s)(E := InitializeEntry
                   (PreAllocatedNptEntries (Data s) ! unat (UsedPreAllocatedEntriesCount (Data s)))
                   (Npt s E)),
            Data := (Data s)\<lparr>UsedPreAllocatedEntriesCount :=
                                  UsedPreAllocatedEntriesCount (Data s) + 1\<rparr>\<rparr>)"
  using assms
  by (simp add: EnsureSubTable_def BuildNestedPageTableEntry_def MAXULONG64_def
        AllocateNptEntry_from_pool)

lemma BuildNestedPageTableEntry_leaf:
  "pa \<noteq> MAXULONG64 \<Longrightarrow>
   BuildNestedPageTableEntry L pa b s =
     Inr (True, s\<lparr>Npt := (Npt s)(L := InitializeEntry (GetPfnFromPa pa) (Npt s L))\<rparr>)"
  by (simp add: BuildNestedPageTableEntry_def)

lemma pa_bounds:
  assumes "pa < 2 ^ 52"
  shows "pa \<noteq> MAXULONG64" and "take_bit 40 (GetPfnFromPa pa) = GetPfnFromPa pa"
proof -
  show "pa \<noteq> MAXULONG64"
    using assms by (auto simp: MAXULONG64_def)
  have p: "take_bit 52 pa = pa"
    using less_mask_eq [OF assms] by (simp add: take_bit_eq_mask)
  have "take_bit 40 (drop_bit 12 (take_bit 52 pa)) = drop_bit 12 (take_bit 52 pa)"
    by (rule bit_word_eqI) (auto simp: bit_simps)
  then show "take_bit 40 (GetPfnFromPa pa) = GetPfnFromPa pa"
    by (simp add: GetPfnFromPa_def PAGE_SHIFT_def p)
qed

lemma frame_fits: "f < 2 ^ 40 \<Longrightarrow> take_bit 40 f = f" for f :: "64 word"
  using less_mask_eq [of f 40] by (simp add: take_bit_eq_mask)

lemma ptrs_unfold:
  "pdpt_entry_ptr m t pa = (PageFrameNumber (m (t, unat (GetPxeIndex pa))), unat (GetPpeIndex pa))"
  "pd_entry_ptr m t pa = (PageFrameNumber (m (pdpt_entry_ptr m t pa)), unat (GetPdeIndex pa))"
  "pt_entry_ptr m t pa = (PageFrameNumber (m (pd_entry_ptr m t pa)), unat (GetPteIndex pa))"
  by (simp_all add: pdpt_entry_ptr_def pd_entry_ptr_def pt_entry_ptr_def pml4_entry_ptr_def)

text \<open>Case 0: the three tables exist, the leaf is not valid.\<close>

lemma build_case0:
  assumes pa: "pa \<noteq> MAXULONG64"
    and w: "walk_valid (Npt s) (Pml4Table (Data s)) pa"
    and l: "Valid (Npt s (pt_entry_ptr (Npt s) (Pml4Table (Data s)) pa)) = 0"
  shows "\<exists>s'. BuildSubTables (Pml4Table (Data s)) pa True s =
                 Inr (Some (pt_entry_ptr (Npt s') (Pml4Table (Data s)) pa), s')
              \<and> mapping_built s s' pa 0"
proof -
  let ?t = "Pml4Table (Data s)" and ?m = "Npt s"
  let ?P4 = "pml4_entry_ptr ?t pa" and ?P3 = "pdpt_entry_ptr ?m ?t pa"
  let ?P2 = "pd_entry_ptr ?m ?t pa" and ?L = "pt_entry_ptr ?m ?t pa"
  define s' where "s' = s\<lparr>Npt := ?m(?L := InitializeEntry (GetPfnFromPa pa) (?m ?L))\<rparr>"
  have v: "Valid (?m ?P4) \<noteq> 0" "Valid (?m ?P3) \<noteq> 0" "Valid (?m ?P2) \<noteq> 0"
    using w by (simp_all add: walk_valid_def)
  have ne: "?L \<noteq> ?P4" "?L \<noteq> ?P3" "?L \<noteq> ?P2"
    using v l by auto
  have off: "?L \<notin> interior_entries ?m ?t pa"
    using ne by (simp add: interior_entries_def)
  have ptrs: "pdpt_entry_ptr (Npt s') ?t pa = ?P3" "pd_entry_ptr (Npt s') ?t pa = ?P2"
    "pt_entry_ptr (Npt s') ?t pa = ?L" "walk_valid (Npt s') ?t pa"
    using w by (simp_all add: s'_def off_walk_ptrs [OF off])
  have r: "BuildSubTables ?t pa True s = Inr (Some ?L, s')"
    unfolding BuildSubTables_def
    apply (rule OperateOnNestedPageTables_build_chain
        [where ?s1.0 = s and ?s2.0 = s and ?s3.0 = s and ok = True and ?E3.0 = ?P3 and ?E2.0 = ?P2])
    using v
    by (simp_all add: EnsureSubTable_present BuildNestedPageTableEntry_leaf [OF pa] s'_def
          ptrs_unfold pml4_entry_ptr_def)
  have "mapping_built s s' pa 0"
    unfolding mapping_built_def walk_entries_def ptrs using l ptrs(4)
    by (simp add: s'_def)
  with r ptrs(3) show ?thesis by auto
qed

lemma used_plus:
  assumes "unat (u :: 32 word) + k \<le> 50"
  shows "unat (u + of_nat k) = unat u + k"
proof -
  have "unat (of_nat k :: 32 word) = k"
    using assms by (simp add: unat_of_nat)
  then show ?thesis
    using assms by (simp add: unat_word_ariths)
qed

text \<open>Case 1: the PDPT and the PD exist, the PD entry is not valid.\<close>

lemma build_case1:
  assumes pa: "pa \<noteq> MAXULONG64"
    and v4: "Valid (Npt s (pml4_entry_ptr (Pml4Table (Data s)) pa)) \<noteq> 0"
    and v3: "Valid (Npt s (pdpt_entry_ptr (Npt s) (Pml4Table (Data s)) pa)) \<noteq> 0"
    and v2: "Valid (Npt s (pd_entry_ptr (Npt s) (Pml4Table (Data s)) pa)) = 0"
    and len: "length (PreAllocatedNptEntries (Data s)) = 50"
    and u: "unat (UsedPreAllocatedEntriesCount (Data s)) + 1 \<le> 50"
    and f0: "f0 = PreAllocatedNptEntries (Data s) ! unat (UsedPreAllocatedEntriesCount (Data s))"
    and fit: "f0 < 2 ^ 40"
    and fresh: "f0 \<noteq> Pml4Table (Data s)"
      "f0 \<noteq> fst (pdpt_entry_ptr (Npt s) (Pml4Table (Data s)) pa)"
      "f0 \<noteq> fst (pd_entry_ptr (Npt s) (Pml4Table (Data s)) pa)"
    and zero: "\<forall>i < 512. Npt s (f0, i) = 0"
  shows "\<exists>s'. BuildSubTables (Pml4Table (Data s)) pa True s =
                 Inr (Some (pt_entry_ptr (Npt s') (Pml4Table (Data s)) pa), s')
              \<and> mapping_built s s' pa 1"
proof -
  let ?t = "Pml4Table (Data s)" and ?m = "Npt s"
  let ?u = "UsedPreAllocatedEntriesCount (Data s)"
  let ?P4 = "pml4_entry_ptr ?t pa" and ?P3 = "pdpt_entry_ptr ?m ?t pa"
  let ?P2 = "pd_entry_ptr ?m ?t pa"
  let ?L = "(f0, unat (GetPteIndex pa))"
  define m1 where "m1 = ?m(?P2 := InitializeEntry f0 (?m ?P2))"
  define s3 where "s3 = s\<lparr>Npt := m1, Data := (Data s)\<lparr>UsedPreAllocatedEntriesCount := ?u + 1\<rparr>\<rparr>"
  define m' where "m' = m1(?L := InitializeEntry (GetPfnFromPa pa) (m1 ?L))"
  define s' where "s' = s3\<lparr>Npt := m'\<rparr>"
  have ne: "?P4 \<noteq> ?P2" "?P3 \<noteq> ?P2" "?P4 \<noteq> ?L" "?P3 \<noteq> ?L" "?P2 \<noteq> ?L"
    using v4 v3 v2 fresh by (auto simp: pml4_entry_ptr_def)
  have z: "?m ?L = 0" "m1 ?L = 0"
    using zero ne by (simp_all add: m1_def index_lt_512)
  have val: "m' ?P4 = ?m ?P4" "m' ?P3 = ?m ?P3" "m' ?P2 = InitializeEntry f0 (?m ?P2)"
    "m' ?L = InitializeEntry (GetPfnFromPa pa) 0"
    using ne by (simp_all add: m'_def m1_def z)
  have p3: "pdpt_entry_ptr m' ?t pa = ?P3"
    using val(1) by (simp add: pdpt_entry_ptr_def)
  have p2: "pd_entry_ptr m' ?t pa = ?P2"
    using val(2) by (simp add: pd_entry_ptr_def p3)
  have p1: "pt_entry_ptr m' ?t pa = ?L"
    using val(3) by (simp add: pt_entry_ptr_def p2 frame_fits [OF fit])
  have wv: "walk_valid m' ?t pa"
    using v4 v3 by (simp add: walk_valid_def p3 p2 val)
  have e3: "EnsureSubTable ?P2 BuildOperation True s = Inr (True, s3)"
    using EnsureSubTable_from_pool [OF v2 _ len] u
    by (simp add: s3_def m1_def f0)
  have r: "BuildSubTables ?t pa True s = Inr (Some ?L, s')"
    unfolding BuildSubTables_def
  proof (rule OperateOnNestedPageTables_build_chain
        [where ?s1.0 = s and ?s2.0 = s and ?s3.0 = s3 and ok = True and ?E3.0 = ?P3 and ?E2.0 = ?P2])
    show "EnsureSubTable (?t, unat (GetPxeIndex pa)) BuildOperation True s = Inr (True, s)"
      using v4 by (simp add: EnsureSubTable_present pml4_entry_ptr_def)
    show "?P3 = (PageFrameNumber (Npt s (?t, unat (GetPxeIndex pa))), unat (GetPpeIndex pa))"
      by (rule ptrs_unfold)
    show "EnsureSubTable ?P3 BuildOperation True s = Inr (True, s)"
      using v3 by (simp add: EnsureSubTable_present)
    show "?P2 = (PageFrameNumber (Npt s ?P3), unat (GetPdeIndex pa))"
      by (rule ptrs_unfold)
    show "EnsureSubTable ?P2 BuildOperation True s = Inr (True, s3)"
      by (rule e3)
    show "?L = (PageFrameNumber (Npt s3 ?P2), unat (GetPteIndex pa))"
      by (simp add: s3_def m1_def frame_fits [OF fit])
    show "BuildNestedPageTableEntry ?L pa True s3 = Inr (True, s')"
      by (simp add: BuildNestedPageTableEntry_leaf [OF pa] s'_def m'_def s3_def)
  qed
  have fr: "\<forall>p. p \<noteq> ?L \<and> p \<noteq> ?P2 \<longrightarrow> m' p = ?m p"
    by (simp add: m'_def m1_def)
  have "mapping_built s s' pa 1"
    unfolding mapping_built_def walk_entries_def
    using wv v2 fr ne
    by (simp add: s'_def s3_def p3 p2 p1 val z)
  with r p1 show ?thesis by (auto simp: s'_def)
qed

text \<open>Case 2: the PDPT exists, its entry is not valid.\<close>

lemma build_case2:
  assumes pa: "pa \<noteq> MAXULONG64"
    and v4: "Valid (Npt s (pml4_entry_ptr (Pml4Table (Data s)) pa)) \<noteq> 0"
    and v3: "Valid (Npt s (pdpt_entry_ptr (Npt s) (Pml4Table (Data s)) pa)) = 0"
    and len: "length (PreAllocatedNptEntries (Data s)) = 50"
    and u: "unat (UsedPreAllocatedEntriesCount (Data s)) + 2 \<le> 50"
    and f0: "f0 = PreAllocatedNptEntries (Data s) ! unat (UsedPreAllocatedEntriesCount (Data s))"
    and f1: "f1 = PreAllocatedNptEntries (Data s) ! (unat (UsedPreAllocatedEntriesCount (Data s)) + 1)"
    and fit: "f0 < 2 ^ 40" "f1 < 2 ^ 40"
    and fresh: "f0 \<noteq> Pml4Table (Data s)" "f1 \<noteq> Pml4Table (Data s)"
      "f0 \<noteq> fst (pdpt_entry_ptr (Npt s) (Pml4Table (Data s)) pa)"
      "f1 \<noteq> fst (pdpt_entry_ptr (Npt s) (Pml4Table (Data s)) pa)"
      "f0 \<noteq> f1"
    and zero: "\<forall>i < 512. Npt s (f0, i) = 0" "\<forall>i < 512. Npt s (f1, i) = 0"
  shows "\<exists>s'. BuildSubTables (Pml4Table (Data s)) pa True s =
                 Inr (Some (pt_entry_ptr (Npt s') (Pml4Table (Data s)) pa), s')
              \<and> mapping_built s s' pa 2"
proof -
  let ?t = "Pml4Table (Data s)" and ?m = "Npt s"
  let ?u = "UsedPreAllocatedEntriesCount (Data s)"
  let ?P4 = "pml4_entry_ptr ?t pa" and ?P3 = "pdpt_entry_ptr ?m ?t pa"
  let ?E2 = "(f0, unat (GetPdeIndex pa))"
  let ?L = "(f1, unat (GetPteIndex pa))"
  define m1 where "m1 = ?m(?P3 := InitializeEntry f0 (?m ?P3))"
  define s2 where "s2 = s\<lparr>Npt := m1, Data := (Data s)\<lparr>UsedPreAllocatedEntriesCount := ?u + 1\<rparr>\<rparr>"
  define m2 where "m2 = m1(?E2 := InitializeEntry f1 (m1 ?E2))"
  define s3 where "s3 = s2\<lparr>Npt := m2, Data := (Data s2)\<lparr>UsedPreAllocatedEntriesCount := ?u + 1 + 1\<rparr>\<rparr>"
  define m' where "m' = m2(?L := InitializeEntry (GetPfnFromPa pa) (m2 ?L))"
  define s' where "s' = s3\<lparr>Npt := m'\<rparr>"
  have u1: "unat (?u + 1) = unat ?u + 1"
    using used_plus [of ?u 1] u by simp
  have ne: "?P4 \<noteq> ?P3" "?P4 \<noteq> ?E2" "?P4 \<noteq> ?L" "?P3 \<noteq> ?E2" "?P3 \<noteq> ?L" "?E2 \<noteq> ?L"
    using v4 v3 fresh by (auto simp: pml4_entry_ptr_def)
  have z: "?m ?E2 = 0" "m1 ?E2 = 0" "?m ?L = 0" "m2 ?L = 0"
    using zero ne fresh by (simp_all add: m1_def m2_def index_lt_512)
  have val: "m' ?P4 = ?m ?P4" "m' ?P3 = InitializeEntry f0 (?m ?P3)"
    "m' ?E2 = InitializeEntry f1 0" "m' ?L = InitializeEntry (GetPfnFromPa pa) 0"
    using ne fresh by (simp_all add: m'_def m2_def m1_def z)
  have p3: "pdpt_entry_ptr m' ?t pa = ?P3"
    using val(1) by (simp add: pdpt_entry_ptr_def)
  have p2: "pd_entry_ptr m' ?t pa = ?E2"
    using val(2) by (simp add: pd_entry_ptr_def p3 frame_fits [OF fit(1)])
  have p1: "pt_entry_ptr m' ?t pa = ?L"
    using val(3) by (simp add: pt_entry_ptr_def p2 frame_fits [OF fit(2)])
  have wv: "walk_valid m' ?t pa"
    using v4 by (simp add: walk_valid_def p3 p2 val)
  have e2: "EnsureSubTable ?P3 BuildOperation True s = Inr (True, s2)"
    using EnsureSubTable_from_pool [OF v3 _ len] u
    by (simp add: s2_def m1_def f0)
  have e3: "EnsureSubTable ?E2 BuildOperation True s2 = Inr (True, s3)"
    using EnsureSubTable_from_pool [of s2 ?E2] u len
    by (simp add: s2_def s3_def m2_def z u1 f1)
  have r: "BuildSubTables ?t pa True s = Inr (Some ?L, s')"
    unfolding BuildSubTables_def
  proof (rule OperateOnNestedPageTables_build_chain
        [where ?s1.0 = s and ?s2.0 = s2 and ?s3.0 = s3 and ok = True and ?E3.0 = ?P3 and ?E2.0 = ?E2])
    show "EnsureSubTable (?t, unat (GetPxeIndex pa)) BuildOperation True s = Inr (True, s)"
      using v4 by (simp add: EnsureSubTable_present pml4_entry_ptr_def)
    show "?P3 = (PageFrameNumber (Npt s (?t, unat (GetPxeIndex pa))), unat (GetPpeIndex pa))"
      by (rule ptrs_unfold)
    show "EnsureSubTable ?P3 BuildOperation True s = Inr (True, s2)"
      by (rule e2)
    show "?E2 = (PageFrameNumber (Npt s2 ?P3), unat (GetPdeIndex pa))"
      by (simp add: s2_def m1_def frame_fits [OF fit(1)])
    show "EnsureSubTable ?E2 BuildOperation True s2 = Inr (True, s3)"
      by (rule e3)
    show "?L = (PageFrameNumber (Npt s3 ?E2), unat (GetPteIndex pa))"
      by (simp add: s3_def m2_def frame_fits [OF fit(2)])
    show "BuildNestedPageTableEntry ?L pa True s3 = Inr (True, s')"
      by (simp add: BuildNestedPageTableEntry_leaf [OF pa] s'_def m'_def s3_def)
  qed
  have fr: "\<forall>p. p \<noteq> ?L \<and> p \<noteq> ?P3 \<and> p \<noteq> ?E2 \<longrightarrow> m' p = ?m p"
    by (simp add: m'_def m2_def m1_def)
  have "mapping_built s s' pa 2"
    unfolding mapping_built_def walk_entries_def
    using wv v3 fr ne fresh
    by (simp add: s'_def s3_def s2_def p3 p2 p1 val z add.assoc)
  with r p1 show ?thesis by (auto simp: s'_def)
qed

text \<open>Case 3: the PML4 entry is not valid.\<close>

lemma build_case3:
  assumes pa: "pa \<noteq> MAXULONG64"
    and v4: "Valid (Npt s (pml4_entry_ptr (Pml4Table (Data s)) pa)) = 0"
    and len: "length (PreAllocatedNptEntries (Data s)) = 50"
    and u: "unat (UsedPreAllocatedEntriesCount (Data s)) + 3 \<le> 50"
    and f0: "f0 = PreAllocatedNptEntries (Data s) ! unat (UsedPreAllocatedEntriesCount (Data s))"
    and f1: "f1 = PreAllocatedNptEntries (Data s) ! (unat (UsedPreAllocatedEntriesCount (Data s)) + 1)"
    and f2: "f2 = PreAllocatedNptEntries (Data s) ! (unat (UsedPreAllocatedEntriesCount (Data s)) + 2)"
    and fit: "f0 < 2 ^ 40" "f1 < 2 ^ 40" "f2 < 2 ^ 40"
    and fresh: "f0 \<noteq> Pml4Table (Data s)" "f1 \<noteq> Pml4Table (Data s)" "f2 \<noteq> Pml4Table (Data s)"
      "f0 \<noteq> f1" "f0 \<noteq> f2" "f1 \<noteq> f2"
    and zero: "\<forall>i < 512. Npt s (f0, i) = 0" "\<forall>i < 512. Npt s (f1, i) = 0"
      "\<forall>i < 512. Npt s (f2, i) = 0"
  shows "\<exists>s'. BuildSubTables (Pml4Table (Data s)) pa True s =
                 Inr (Some (pt_entry_ptr (Npt s') (Pml4Table (Data s)) pa), s')
              \<and> mapping_built s s' pa 3"
proof -
  let ?t = "Pml4Table (Data s)" and ?m = "Npt s"
  let ?u = "UsedPreAllocatedEntriesCount (Data s)"
  let ?P4 = "pml4_entry_ptr ?t pa"
  let ?E3 = "(f0, unat (GetPpeIndex pa))"
  let ?E2 = "(f1, unat (GetPdeIndex pa))"
  let ?L = "(f2, unat (GetPteIndex pa))"
  define m1 where "m1 = ?m(?P4 := InitializeEntry f0 (?m ?P4))"
  define s1 where "s1 = s\<lparr>Npt := m1, Data := (Data s)\<lparr>UsedPreAllocatedEntriesCount := ?u + 1\<rparr>\<rparr>"
  define m2 where "m2 = m1(?E3 := InitializeEntry f1 (m1 ?E3))"
  define s2 where "s2 = s1\<lparr>Npt := m2, Data := (Data s1)\<lparr>UsedPreAllocatedEntriesCount := ?u + 1 + 1\<rparr>\<rparr>"
  define m3 where "m3 = m2(?E2 := InitializeEntry f2 (m2 ?E2))"
  define s3 where "s3 = s2\<lparr>Npt := m3, Data := (Data s2)\<lparr>UsedPreAllocatedEntriesCount := ?u + 1 + 1 + 1\<rparr>\<rparr>"
  define m' where "m' = m3(?L := InitializeEntry (GetPfnFromPa pa) (m3 ?L))"
  define s' where "s' = s3\<lparr>Npt := m'\<rparr>"
  have u1: "unat (?u + 1) = unat ?u + 1"
    using used_plus [of ?u 1] u by simp
  have u2: "unat (?u + 1 + 1) = unat ?u + 2" "unat (2 + ?u) = unat ?u + 2"
    using used_plus [of ?u 2] u by (simp_all add: add.assoc add.commute)
  have ne: "?P4 \<noteq> ?E3" "?P4 \<noteq> ?E2" "?P4 \<noteq> ?L" "?E3 \<noteq> ?E2" "?E3 \<noteq> ?L" "?E2 \<noteq> ?L"
    using fresh by (auto simp: pml4_entry_ptr_def)
  have z: "?m ?E3 = 0" "m1 ?E3 = 0" "?m ?E2 = 0" "m2 ?E2 = 0" "?m ?L = 0" "m3 ?L = 0"
    using zero ne fresh by (simp_all add: m1_def m2_def m3_def index_lt_512)
  have val: "m' ?P4 = InitializeEntry f0 (?m ?P4)" "m' ?E3 = InitializeEntry f1 0"
    "m' ?E2 = InitializeEntry f2 0" "m' ?L = InitializeEntry (GetPfnFromPa pa) 0"
    using ne fresh by (simp_all add: m'_def m3_def m2_def m1_def z)
  have p3: "pdpt_entry_ptr m' ?t pa = ?E3"
    using val(1) by (simp add: pdpt_entry_ptr_def frame_fits [OF fit(1)])
  have p2: "pd_entry_ptr m' ?t pa = ?E2"
    using val(2) by (simp add: pd_entry_ptr_def p3 frame_fits [OF fit(2)])
  have p1: "pt_entry_ptr m' ?t pa = ?L"
    using val(3) by (simp add: pt_entry_ptr_def p2 frame_fits [OF fit(3)])
  have wv: "walk_valid m' ?t pa"
    by (simp add: walk_valid_def p3 p2 val)
  have e1: "EnsureSubTable ?P4 BuildOperation True s = Inr (True, s1)"
    using EnsureSubTable_from_pool [OF v4 _ len] u
    by (simp add: s1_def m1_def f0)
  have e2: "EnsureSubTable ?E3 BuildOperation True s1 = Inr (True, s2)"
    using EnsureSubTable_from_pool [of s1 ?E3] u len
    by (simp add: s1_def s2_def m2_def z u1 f1)
  have e3: "EnsureSubTable ?E2 BuildOperation True s2 = Inr (True, s3)"
    using EnsureSubTable_from_pool [of s2 ?E2] u len
    by (simp add: s1_def s2_def s3_def m3_def z u2 f2)
  have r: "BuildSubTables ?t pa True s = Inr (Some ?L, s')"
    unfolding BuildSubTables_def
  proof (rule OperateOnNestedPageTables_build_chain
        [where ?s1.0 = s1 and ?s2.0 = s2 and ?s3.0 = s3 and ok = True and ?E3.0 = ?E3 and ?E2.0 = ?E2])
    show "EnsureSubTable (?t, unat (GetPxeIndex pa)) BuildOperation True s = Inr (True, s1)"
      using e1 by (simp add: pml4_entry_ptr_def)
    show "?E3 = (PageFrameNumber (Npt s1 (?t, unat (GetPxeIndex pa))), unat (GetPpeIndex pa))"
      by (simp add: s1_def m1_def pml4_entry_ptr_def frame_fits [OF fit(1)])
    show "EnsureSubTable ?E3 BuildOperation True s1 = Inr (True, s2)"
      by (rule e2)
    show "?E2 = (PageFrameNumber (Npt s2 ?E3), unat (GetPdeIndex pa))"
      by (simp add: s2_def m2_def frame_fits [OF fit(2)])
    show "EnsureSubTable ?E2 BuildOperation True s2 = Inr (True, s3)"
      by (rule e3)
    show "?L = (PageFrameNumber (Npt s3 ?E2), unat (GetPteIndex pa))"
      by (simp add: s3_def m3_def frame_fits [OF fit(3)])
    show "BuildNestedPageTableEntry ?L pa True s3 = Inr (True, s')"
      by (simp add: BuildNestedPageTableEntry_leaf [OF pa] s'_def m'_def s3_def)
  qed
  have fr: "\<forall>p. p \<noteq> ?L \<and> p \<noteq> ?P4 \<and> p \<noteq> ?E3 \<and> p \<noteq> ?E2 \<longrightarrow> m' p = ?m p"
    by (simp add: m'_def m3_def m2_def m1_def)
  have "mapping_built s s' pa 3"
    unfolding mapping_built_def walk_entries_def
    using wv v4 fr ne fresh
    by (simp add: s'_def s3_def s2_def s1_def p3 p2 p1 val z add.assoc)
  with r p1 show ?thesis by (auto simp: s'_def)
qed

lemma take_drop_nth:
  "u + 1 \<le> length xs \<Longrightarrow> take 1 (drop u xs) = [xs ! u]"
  "u + 2 \<le> length xs \<Longrightarrow> take 2 (drop u xs) = [xs ! u, xs ! (u + 1)]"
  "u + 3 \<le> length xs \<Longrightarrow> take 3 (drop u xs) = [xs ! u, xs ! (u + 1), xs ! (u + 2)]"
  by (simp_all add: numeral_2_eq_2 numeral_3_eq_3 take_Suc_conv_app_nth)

lemma BuildSubTables_builds_missing_mapping:
  assumes pa: "pa < 2 ^ 52"
    and un: "\<not> mapped (Npt s) (Pml4Table (Data s)) pa"
    and pool: "pool_ready s pa"
  shows "\<exists>s'. BuildSubTables (Pml4Table (Data s)) pa True s =
                 Inr (Some (pt_entry_ptr (Npt s') (Pml4Table (Data s)) pa), s')
              \<and> mapping_built s s' pa (missing_tables (Npt s) (Pml4Table (Data s)) pa)"
proof -
  let ?t = "Pml4Table (Data s)" and ?m = "Npt s"
  let ?u = "unat (UsedPreAllocatedEntriesCount (Data s))"
  let ?pool = "PreAllocatedNptEntries (Data s)"
  let ?k = "missing_tables ?m ?t pa"
  note pa' = pa_bounds(1) [OF pa]
  have len: "length ?pool = 50" and cap: "?u + ?k \<le> 50"
    and dist: "distinct (take ?k (drop ?u ?pool))"
    and each: "\<And>f. f \<in> set (take ?k (drop ?u ?pool)) \<Longrightarrow>
                 f < 2 ^ 40 \<and> f \<notin> set (present_tables ?m ?t pa) \<and> (\<forall>i < 512. ?m (f, i) = 0)"
    using pool unfolding pool_ready_def next_pool_entries_def by blast+
  consider (c3) "Valid (?m (pml4_entry_ptr ?t pa)) = 0"
    | (c2) "Valid (?m (pml4_entry_ptr ?t pa)) \<noteq> 0" "Valid (?m (pdpt_entry_ptr ?m ?t pa)) = 0"
    | (c1) "Valid (?m (pml4_entry_ptr ?t pa)) \<noteq> 0" "Valid (?m (pdpt_entry_ptr ?m ?t pa)) \<noteq> 0"
           "Valid (?m (pd_entry_ptr ?m ?t pa)) = 0"
    | (c0) "Valid (?m (pml4_entry_ptr ?t pa)) \<noteq> 0" "Valid (?m (pdpt_entry_ptr ?m ?t pa)) \<noteq> 0"
           "Valid (?m (pd_entry_ptr ?m ?t pa)) \<noteq> 0"
    by blast
  then show ?thesis
  proof cases
    case c0
    then have k: "?k = 0" and w: "walk_valid ?m ?t pa"
      by (simp_all add: missing_tables_def walk_valid_def)
    from un w have l: "Valid (?m (pt_entry_ptr ?m ?t pa)) = 0"
      by (simp add: mapped_def)
    show ?thesis
      unfolding k by (rule build_case0 [OF pa' w l])
  next
    case c1
    then have k: "?k = 1"
      by (simp add: missing_tables_def)
    have u: "?u + 1 \<le> 50"
      using cap k by simp
    have e: "take ?k (drop ?u ?pool) = [?pool ! ?u]"
      unfolding k using take_drop_nth(1) [of ?u ?pool] u len by simp
    have p: "present_tables ?m ?t pa =
        [?t, fst (pdpt_entry_ptr ?m ?t pa), fst (pd_entry_ptr ?m ?t pa)]"
      by (simp add: present_tables_def k)
    have f: "?pool ! ?u < 2 ^ 40 \<and> ?pool ! ?u \<notin> set (present_tables ?m ?t pa)
        \<and> (\<forall>i < 512. ?m (?pool ! ?u, i) = 0)"
      by (rule each) (simp add: e)
    show ?thesis
      unfolding k
      by (rule build_case1 [OF pa' c1 len u refl]) (use f p in simp_all)
  next
    case c2
    then have k: "?k = 2"
      by (simp add: missing_tables_def)
    have u: "?u + 2 \<le> 50"
      using cap k by simp
    have e: "take ?k (drop ?u ?pool) = [?pool ! ?u, ?pool ! (?u + 1)]"
      unfolding k using take_drop_nth(2) [of ?u ?pool] u len by simp
    have p: "present_tables ?m ?t pa = [?t, fst (pdpt_entry_ptr ?m ?t pa)]"
      by (simp add: present_tables_def k)
    have f0: "?pool ! ?u < 2 ^ 40 \<and> ?pool ! ?u \<notin> set (present_tables ?m ?t pa)
        \<and> (\<forall>i < 512. ?m (?pool ! ?u, i) = 0)"
      by (rule each) (simp add: e)
    have f1: "?pool ! (?u + 1) < 2 ^ 40 \<and> ?pool ! (?u + 1) \<notin> set (present_tables ?m ?t pa)
        \<and> (\<forall>i < 512. ?m (?pool ! (?u + 1), i) = 0)"
      by (rule each) (simp add: e)
    have d: "?pool ! ?u \<noteq> ?pool ! (?u + 1)"
      using dist unfolding e by simp
    show ?thesis
      unfolding k
      by (rule build_case2 [OF pa' c2 len u refl refl]) (use f0 f1 p d in simp_all)
  next
    case c3
    then have k: "?k = 3"
      by (simp add: missing_tables_def)
    have u: "?u + 3 \<le> 50"
      using cap k by simp
    have e: "take ?k (drop ?u ?pool) = [?pool ! ?u, ?pool ! (?u + 1), ?pool ! (?u + 2)]"
      unfolding k using take_drop_nth(3) [of ?u ?pool] u len by simp
    have p: "present_tables ?m ?t pa = [?t]"
      by (simp add: present_tables_def k)
    have f0: "?pool ! ?u < 2 ^ 40 \<and> ?pool ! ?u \<notin> set (present_tables ?m ?t pa)
        \<and> (\<forall>i < 512. ?m (?pool ! ?u, i) = 0)"
      by (rule each) (simp add: e)
    have f1: "?pool ! (?u + 1) < 2 ^ 40 \<and> ?pool ! (?u + 1) \<notin> set (present_tables ?m ?t pa)
        \<and> (\<forall>i < 512. ?m (?pool ! (?u + 1), i) = 0)"
      by (rule each) (simp add: e)
    have f2: "?pool ! (?u + 2) < 2 ^ 40 \<and> ?pool ! (?u + 2) \<notin> set (present_tables ?m ?t pa)
        \<and> (\<forall>i < 512. ?m (?pool ! (?u + 2), i) = 0)"
      by (rule each) (simp add: e)
    have d: "?pool ! ?u \<noteq> ?pool ! (?u + 1)" "?pool ! ?u \<noteq> ?pool ! (?u + 2)"
      "?pool ! (?u + 1) \<noteq> ?pool ! (?u + 2)"
      using dist unfolding e by simp_all
    show ?thesis
      unfolding k
      by (rule build_case3 [OF pa' c3 len u refl refl refl]) (use f0 f1 f2 p d in simp_all)
  qed
qed

lemma missing_tables_le: "missing_tables m t pa \<le> 3"
  by (simp add: missing_tables_def)

lemma AllocateNptEntry_exhausted:
  "unat (UsedPreAllocatedEntriesCount (Data s)) = 50 \<Longrightarrow> AllocateNptEntry True s = Inl BugCheck"
  by (simp add: AllocateNptEntry_def Let_def unat_word_ariths)

lemma EnsureSubTable_exhausted:
  assumes "Valid (Npt s E) = 0" and "unat (UsedPreAllocatedEntriesCount (Data s)) = 50"
  shows "EnsureSubTable E BuildOperation True s = Inl BugCheck"
  using assms
  by (simp add: EnsureSubTable_def BuildNestedPageTableEntry_def AllocateNptEntry_exhausted)

lemma HandleNestedPageFault_bug_checks_when_exhausted:
  assumes "NPF_EXITINFO1_Valid (ExitInfo1 (ControlArea vmcb)) = 0"
    and "0 < missing_tables (Npt s) (Pml4Table (Data s)) (ExitInfo2 (ControlArea vmcb))"
    and "unat (UsedPreAllocatedEntriesCount (Data s)) = 50"
  shows "HandleNestedPageFault regs vmcb s = Inl BugCheck"
proof -
  let ?t = "Pml4Table (Data s)" and ?m = "Npt s" and ?pa = "ExitInfo2 (ControlArea vmcb)"
  consider (c3) "Valid (?m (pml4_entry_ptr ?t ?pa)) = 0"
    | (c2) "Valid (?m (pml4_entry_ptr ?t ?pa)) \<noteq> 0" "Valid (?m (pdpt_entry_ptr ?m ?t ?pa)) = 0"
    | (c1) "Valid (?m (pml4_entry_ptr ?t ?pa)) \<noteq> 0" "Valid (?m (pdpt_entry_ptr ?m ?t ?pa)) \<noteq> 0"
           "Valid (?m (pd_entry_ptr ?m ?t ?pa)) = 0"
    using assms(2) by (auto simp: missing_tables_def split: if_splits)
  then have "BuildSubTables ?t ?pa True s = Inl BugCheck"
  proof cases
    case c3
    then show ?thesis
      by (simp add: BuildSubTables_def OperateOnNestedPageTables_def Let_def
            EnsureSubTable_exhausted [OF _ assms(3)] pml4_entry_ptr_def)
  next
    case c2
    then show ?thesis
      by (simp add: BuildSubTables_def OperateOnNestedPageTables_def Let_def
            EnsureSubTable_exhausted [OF _ assms(3)] EnsureSubTable_present
            pml4_entry_ptr_def pdpt_entry_ptr_def)
  next
    case c1
    then show ?thesis
      by (simp add: BuildSubTables_def OperateOnNestedPageTables_def Let_def
            EnsureSubTable_exhausted [OF _ assms(3)] EnsureSubTable_present
            pml4_entry_ptr_def pdpt_entry_ptr_def pd_entry_ptr_def)
  qed
  then show ?thesis
    using assms(1) by (simp add: HandleNestedPageFault_def Let_def)
qed

lemma example_mmio_ptrs:
  "pml4_entry_ptr 1 0xFED00000 = (1, 0)"
  "pdpt_entry_ptr example_npt 1 0xFED00000 = (2, 3)"
  "GetPdeIndex 0xFED00000 = 502"
  "GetPteIndex 0xFED00000 = 256"
  "GetPfnFromPa 0xFED00000 = 0xFED00"
  by (simp_all add: pt_entry_ptr_def pd_entry_ptr_def pdpt_entry_ptr_def pml4_entry_ptr_def
        example_npt_def GetPxeIndex_def GetPpeIndex_def GetPdeIndex_def GetPfnFromPa_def PAGE_SHIFT_def
        GetPteIndex_def k_PxiShift_def k_PpiShift_def k_PdiShift_def k_PtiShift_def k_PtxMask_def
        PageFrameNumber_def get_field_def)

lemma example_mmio_missing:
  "missing_tables example_npt 1 0xFED00000 = 2"
  "\<not> mapped example_npt 1 0xFED00000"
  by (simp_all add: missing_tables_def mapped_def walk_valid_def example_mmio_ptrs)
     (simp_all add: example_npt_def Valid_def get_field_def)

lemma example_pool:
  "take 2 (PreAllocatedNptEntries (Data example_state)) = [256, 257]"
  "length (PreAllocatedNptEntries (Data example_state)) = 50"
  by (simp_all add: example_state_def upt_rec numeral_2_eq_2)

lemma example_pool_ready: "pool_ready example_state 0xFED00000"
  unfolding pool_ready_def next_pool_entries_def
  by (simp add: example_state_def example_mmio_missing example_pool [unfolded example_state_def, simplified]
        present_tables_def example_mmio_ptrs)
     (simp add: example_npt_def)


text \<open>
  C7. A nested page fault with ExitInfo1.Valid = 0 at a physical address (below 2^52)
  that is not mapped yet, while the pool is ready for it: \<open>HandleNestedPageFault\<close>
  returns, and the state it returns has exactly one new leaf entry, valid, writable,
  user accessible, with the frame number \<open>pa >> 12\<close>, and \<open>k\<close> new interior entries
  (valid, writable, user accessible), where \<open>k \<le> 3\<close> is the number of missing tables;
  every other entry is unchanged, \<open>k\<close> pool entries (so at most four) are used, and
  \<open>NptState\<close> and \<open>ActiveHookEntry\<close> are as before.
\<close>

theorem HandleNestedPageFault_builds_missing_mapping:
  assumes "NPF_EXITINFO1_Valid (ExitInfo1 (ControlArea vmcb)) = 0"
    and "ExitInfo2 (ControlArea vmcb) = pa"
    and "pa < 2 ^ 52"
    and "\<not> mapped (Npt s) (Pml4Table (Data s)) pa"
    and "pool_ready s pa"
  shows "\<exists>s' leaf k.
      HandleNestedPageFault regs vmcb s = Inr s'
    \<and> leaf = pt_entry_ptr (Npt s') (Pml4Table (Data s)) pa
    \<and> k = missing_tables (Npt s) (Pml4Table (Data s)) pa \<and> k \<le> 3
    \<and> mapping_built s s' pa k
    \<and> mapped (Npt s') (Pml4Table (Data s)) pa
    \<and> Valid (Npt s leaf) = 0
    \<and> Valid (Npt s' leaf) = 1 \<and> Write (Npt s' leaf) = 1 \<and> User (Npt s' leaf) = 1
    \<and> PageFrameNumber (Npt s' leaf) = drop_bit 12 pa
    \<and> unat (UsedPreAllocatedEntriesCount (Data s')) =
        unat (UsedPreAllocatedEntriesCount (Data s)) + k
    \<and> unat (UsedPreAllocatedEntriesCount (Data s')) \<le>
        unat (UsedPreAllocatedEntriesCount (Data s)) + 4
    \<and> NptState (Data s') = NptState (Data s)
    \<and> ActiveHookEntry (Data s') = ActiveHookEntry (Data s)"
proof -
  let ?t = "Pml4Table (Data s)"
  let ?k = "missing_tables (Npt s) ?t pa"
  from BuildSubTables_builds_missing_mapping [OF assms(3-5)]
  obtain s' where b: "BuildSubTables ?t pa True s = Inr (Some (pt_entry_ptr (Npt s') ?t pa), s')"
    and m: "mapping_built s s' pa ?k"
    by blast
  let ?leaf = "pt_entry_ptr (Npt s') ?t pa"
  have h: "HandleNestedPageFault regs vmcb s = Inr s'"
    using assms(1,2) b by (simp add: HandleNestedPageFault_def Let_def)
  have d: "Data s' = (Data s)\<lparr>UsedPreAllocatedEntriesCount :=
                           UsedPreAllocatedEntriesCount (Data s) + of_nat ?k\<rparr>"
    and w: "walk_valid (Npt s') ?t pa"
    and l0: "Valid (Npt s ?leaf) = 0"
    and l: "Npt s' ?leaf = InitializeEntry (GetPfnFromPa pa) (Npt s ?leaf)"
    using m unfolding mapping_built_def by blast+
  have cap: "unat (UsedPreAllocatedEntriesCount (Data s)) + ?k \<le> 50"
    using assms(5) unfolding pool_ready_def by blast
  have u: "unat (UsedPreAllocatedEntriesCount (Data s')) =
        unat (UsedPreAllocatedEntriesCount (Data s)) + ?k"
    using used_plus [OF cap] by (simp add: d)
  have f: "PageFrameNumber (Npt s' ?leaf) = drop_bit 12 pa"
    using pa_bounds(2) [OF assms(3)] by (simp add: l GetPfnFromPa_def PAGE_SHIFT_def)
  have mp: "mapped (Npt s') ?t pa"
    using w by (simp add: mapped_def l)
  show ?thesis
    using h m l0 u f mp missing_tables_le [of "Npt s" ?t pa]
    by (simp add: l d)
qed


lemma example_mmio_fault:
  "HandleNestedPageFault example_hooks example_mmio_vmcb example_state =
     Inr (example_state
           \<lparr>Npt := example_npt((2, 3) := 0x100007, (256, 502) := 0x101007,
                                (257, 256) := 0xFED00007),
             Data := (Data example_state)\<lparr>UsedPreAllocatedEntriesCount := 2\<rparr>\<rparr>)"
proof -
  have v: "Valid 0x2007 = 1" "Valid 0 = 0" "PageFrameNumber 0x2007 = 2"
    "NPF_EXITINFO1_Valid 0x100000006 = 0"
    "InitializeEntry 256 0 = 0x100007" "InitializeEntry 257 0 = 0x101007"
    "InitializeEntry 0xFED00 0 = 0xFED00007"
    "PageFrameNumber 0x100007 = 256" "PageFrameNumber 0x101007 = 257"
    by (simp_all add: Valid_def PageFrameNumber_def NPF_EXITINFO1_Valid_def get_field_def
          InitializeEntry_def set_PageFrameNumber_def set_User_def set_Write_def set_Valid_def
          set_field_def of_BOOLEAN_def mask_eq_exp_minus_1)
  show ?thesis
    by (simp add: HandleNestedPageFault_def example_mmio_vmcb_def Let_def v
          BuildSubTables_def OperateOnNestedPageTables_def EnsureSubTable_def
          BuildNestedPageTableEntry_def AllocateNptEntry_def MAXULONG64_def
          example_state_def example_vmcb_def example_npt_def upt_rec
          GetPxeIndex_def GetPpeIndex_def GetPdeIndex_def GetPfnFromPa_def PAGE_SHIFT_def
          GetPteIndex_def k_PxiShift_def k_PpiShift_def k_PdiShift_def k_PtiShift_def k_PtxMask_def)
qed

theorem HandleNestedPageFault_builds_missing_mapping_witness:
  "\<exists>s'. HandleNestedPageFault example_hooks example_mmio_vmcb example_state = Inr s'
      \<and> mapping_built example_state s' 0xFED00000 2
      \<and> pt_entry_ptr (Npt s') 1 0xFED00000 = (257, 256)
      \<and> Npt s' (257, 256) = 0xFED00007
      \<and> Npt s' (256, 502) = 0x101007
      \<and> Npt s' (2, 3) = 0x100007
      \<and> PageFrameNumber (Npt s' (257, 256)) = 0xFED00
      \<and> UsedPreAllocatedEntriesCount (Data s') = 2
      \<and> NptState (Data s') = NptDefault \<and> ActiveHookEntry (Data s') = None"
proof -
  have h: "NPF_EXITINFO1_Valid (ExitInfo1 (ControlArea example_mmio_vmcb)) = 0"
    "ExitInfo2 (ControlArea example_mmio_vmcb) = 0xFED00000"
    "(0xFED00000 :: 64 word) < 2 ^ 52"
    "\<not> mapped (Npt example_state) (Pml4Table (Data example_state)) 0xFED00000"
    "pool_ready example_state 0xFED00000"
    using example_mmio_missing(2) example_pool_ready
    by (simp_all add: example_mmio_vmcb_def NPF_EXITINFO1_Valid_def get_field_def
          example_state_def)
  have k: "missing_tables (Npt example_state) 1 0xFED00000 = 2"
    "Pml4Table (Data example_state) = 1"
    using example_mmio_missing(1) by (simp_all add: example_state_def)
  from HandleNestedPageFault_builds_missing_mapping [OF h, of example_hooks]
  obtain s' where r: "HandleNestedPageFault example_hooks example_mmio_vmcb example_state = Inr s'"
    "mapping_built example_state s' 0xFED00000 2"
    "PageFrameNumber (Npt s' (pt_entry_ptr (Npt s') 1 0xFED00000)) = drop_bit 12 0xFED00000"
    unfolding k by blast
  have s: "s' = example_state
           \<lparr>Npt := example_npt((2, 3) := 0x100007, (256, 502) := 0x101007,
                                (257, 256) := 0xFED00007),
             Data := (Data example_state)\<lparr>UsedPreAllocatedEntriesCount := 2\<rparr>\<rparr>"
    using r(1) by (simp add: example_mmio_fault)
  have p: "pt_entry_ptr (Npt s') 1 0xFED00000 = (257, 256)"
    by (simp add: s pt_entry_ptr_def pd_entry_ptr_def pdpt_entry_ptr_def pml4_entry_ptr_def
        example_npt_def GetPxeIndex_def GetPpeIndex_def GetPdeIndex_def
        GetPteIndex_def k_PxiShift_def k_PpiShift_def k_PdiShift_def k_PtiShift_def k_PtxMask_def
        PageFrameNumber_def get_field_def)
  have f: "drop_bit 12 (0xFED00000 :: 64 word) = 0xFED00"
    by simp
  show ?thesis
    using r p f by (auto simp: s example_state_def)
qed

text \<open>
  With all 50 entries of the pool in use, the same fault on the example tables, where
  the PDPT entry of the address is missing, is fatal: the first allocation bug-checks.
\<close>

theorem HandleNestedPageFault_pool_exhausted:
  "NPF_EXITINFO1_Valid (ExitInfo1 (ControlArea example_mmio_vmcb)) = 0
   \<and> \<not> mapped (Npt example_full_pool_state) (Pml4Table (Data example_full_pool_state))
          (ExitInfo2 (ControlArea example_mmio_vmcb))
   \<and> HandleNestedPageFault example_hooks example_mmio_vmcb example_full_pool_state = Inl BugCheck"
proof -
  have v: "Valid 0x2007 = 1" "Valid 0 = 0" "PageFrameNumber 0x2007 = 2"
    "NPF_EXITINFO1_Valid 0x100000006 = 0"
    by (simp_all add: Valid_def PageFrameNumber_def NPF_EXITINFO1_Valid_def get_field_def)
  have a: "AllocateNptEntry True example_full_pool_state = Inl BugCheck"
    by (simp add: AllocateNptEntry_def example_full_pool_state_def example_state_def Let_def)
  have e1: "EnsureSubTable (1, 0) BuildOperation True example_full_pool_state
      = Inr (True, example_full_pool_state)"
    by (simp add: EnsureSubTable_def example_full_pool_state_def example_state_def
          example_npt_def v)
  have e2: "EnsureSubTable (2, 3) BuildOperation True example_full_pool_state = Inl BugCheck"
    by (simp add: EnsureSubTable_def BuildNestedPageTableEntry_def a)
       (simp add: example_full_pool_state_def example_state_def example_npt_def v)
  have n: "Npt example_full_pool_state (1, 0) = 0x2007"
    by (simp add: example_full_pool_state_def example_state_def example_npt_def)
  have b: "BuildSubTables 1 0xFED00000 True example_full_pool_state = Inl BugCheck"
    using example_mmio_ptrs(1,2)
    by (simp add: BuildSubTables_def OperateOnNestedPageTables_def Let_def
          pml4_entry_ptr_def pdpt_entry_ptr_def e1 n v e2)
  show ?thesis
    using example_mmio_missing(2)
    by (simp add: HandleNestedPageFault_def example_mmio_vmcb_def Let_def v)
       (simp add: example_full_pool_state_def example_state_def b [unfolded example_full_pool_state_def example_state_def, simplified])
qed

end
